theory Spec2Isabelle
  imports Complex_Main "HOL-Library.Log_Nat"
begin

section \<open>Data model of the adaptive controller\<close>

text \<open>
  The controller of \<^verbatim>\<open>src/lib/adaptive-controller.js\<close> keeps its configuration and its
  run-time state as fields of one object; the model keeps them as one record. The control
  flow is modelled over the reals (no rounding error, no NaN, no infinities); the rounding
  to the thermostat precision is modelled a second time in IEEE binary64, the arithmetic of
  JavaScript numbers, in the section on binary64 below. Instants are integers, the
  milliseconds of \<^verbatim>\<open>Date.now()\<close>. A field that can hold \<^verbatim>\<open>null\<close> is an option.
\<close>

text \<open>
  A schedule slot \<^verbatim>\<open>{time: "06:00", temp: 21}\<close>. The source reads the time of a slot only
  through \<^verbatim>\<open>slot.time.split(':').map(Number)\<close>, so \<open>slot_time\<close> holds that list of
  numbers (\<open>None\<close> inside the list is NaN), and is \<open>None\<close> when \<^verbatim>\<open>slot.time\<close> is
  missing or empty (falsy). \<open>slot_temp\<close> is \<open>None\<close> when \<^verbatim>\<open>slot.temp\<close> is undefined.
\<close>

record slot =
  slot_time :: "real option list option"
  slot_temp :: "real option"

text \<open>
  The weekly schedule, an object with one slot list per day name. A list is empty when the
  day is missing or is no array. \<open>daySlots sch i\<close> is \<^verbatim>\<open>schedule[dayNames[i]]\<close>.
\<close>

record schedule =
  sunday :: "slot list"
  monday :: "slot list"
  tuesday :: "slot list"
  wednesday :: "slot list"
  thursday :: "slot list"
  friday :: "slot list"
  saturday :: "slot list"

definition daySlots :: "schedule \<Rightarrow> nat \<Rightarrow> slot list" where
  "daySlots sch i =
     (if i = 0 then sunday sch
      else if i = 1 then monday sch
      else if i = 2 then tuesday sch
      else if i = 3 then wednesday sch
      else if i = 4 then thursday sch
      else if i = 5 then friday sch
      else if i = 6 then saturday sch
      else [])"

text \<open>
  What the time provider answers during one call: \<^verbatim>\<open>Date.now()\<close> and the result of
  \<^verbatim>\<open>getTimeInTimezone(schedule.timezone)\<close>. All clock reads of one call see the same instant.
\<close>

record clock =
  now :: int
  dayIndex :: nat
  hours :: nat
  minutes :: nat

record controller =
  minTemp :: real
  maxTemp :: real
  targetTemp :: real
  baseTargetTemp :: real
  hysteresis :: real
  sampleInterval :: real
  learningEnabled :: bool
  maxOutputChange :: real
  precision :: real
  mode :: string
  operatingMode :: string
  schedule :: "schedule option"
  boostActive :: bool
  boostTemp :: "real option"
  boostEndTime :: "int option"
  awayMode :: bool
  awayTemp :: real
  Kp :: real
  Ki :: real
  Kd :: real
  integral :: real
  lastError :: real
  lastTemp :: "real option"
  lastOutput :: "real option"
  lastUpdateTime :: "int option"
  learningPhase :: bool
  temperatureHistory :: "(real \<times> int) list"
  learningStartTime :: "int option"
  learningComplete :: bool
  performanceHistory :: "real list"
  trendWindow :: "real list"
  parametersChanged :: bool

text \<open>Set once by the constructor and never assigned again.\<close>

definition samplesNeeded :: nat where
  "samplesNeeded = 30"

definition adaptationInterval :: nat where
  "adaptationInterval = 100"

definition trendWindowSize :: nat where
  "trendWindowSize = 5"

text \<open>
  The fields of the object \<^verbatim>\<open>update\<close> returns that the node's latch and the
  properties below read; the PID terms are the rounded \<^verbatim>\<open>P\<close>, \<^verbatim>\<open>I\<close>, \<^verbatim>\<open>D\<close> of the debug record.
\<close>

record pidTerms =
  pid_P :: real
  pid_I :: real
  pid_D :: real
  adjustment :: real

record result =
  res_output :: real
  res_targetTemp :: real
  res_error :: real
  res_trend :: string
  res_activeMode :: string
  res_operatingMode :: string
  res_pidTerms :: "(real \<times> real \<times> real) option"

text \<open>The constructor called with the node's defaults (an empty configuration).\<close>

definition constructor :: controller where
  "constructor = \<lparr>
     minTemp = 15, maxTemp = 25, targetTemp = 21, baseTargetTemp = 21,
     hysteresis = 0.2, sampleInterval = 60000, learningEnabled = True,
     maxOutputChange = 0.5, precision = 0.5, mode = ''heat'', operatingMode = ''manual'',
     schedule = None, boostActive = False, boostTemp = None, boostEndTime = None,
     awayMode = False, awayTemp = 16, Kp = 1.0, Ki = 0.02, Kd = 0.5,
     integral = 0, lastError = 0, lastTemp = None, lastOutput = None,
     lastUpdateTime = None, learningPhase = True, temperatureHistory = [],
     learningStartTime = None, learningComplete = False, performanceHistory = [],
     trendWindow = [], parametersChanged = False \<rparr>"

section \<open>Helpers\<close>

text \<open>\<^verbatim>\<open>clamp(value, min, max) = Math.min(Math.max(value, min), max)\<close>\<close>

definition clamp :: "real \<Rightarrow> real \<Rightarrow> real \<Rightarrow> real" where
  "clamp v lo hi = min (max v lo) hi"

text \<open>\<^verbatim>\<open>Math.round\<close>: the nearest integer, a half rounded up.\<close>

definition Math_round :: "real \<Rightarrow> real" where
  "Math_round x = of_int \<lfloor>x + 1 / 2\<rfloor>"

text \<open>\<^verbatim>\<open>Math.sign\<close>\<close>

definition Math_sign :: "real \<Rightarrow> real" where
  "Math_sign x = (if x > 0 then 1 else if x < 0 then - 1 else 0)"

definition roundToPrecision :: "controller \<Rightarrow> real \<Rightarrow> real" where
  "roundToPrecision s v = Math_round (v / precision s) * precision s"

text \<open>Truthiness of an instant that may be \<^verbatim>\<open>null\<close>: \<^verbatim>\<open>null\<close> and 0 are falsy.\<close>

definition truthy :: "int option \<Rightarrow> bool" where
  "truthy t = (case t of None \<Rightarrow> False | Some v \<Rightarrow> v \<noteq> 0)"

section \<open>Schedule lookup and effective target\<close>

text \<open>
  \<^verbatim>\<open>slotHours * 60 + (slotMins || 0)\<close> of a slot's time; \<open>None\<close> is NaN (the hours are
  missing or NaN), and missing, NaN or zero minutes count as 0.
\<close>

definition slotMinutes :: "real option list \<Rightarrow> real option" where
  "slotMinutes parts =
     (case parts of
        [] \<Rightarrow> None
      | slotHours # rest \<Rightarrow>
          (case slotHours of
             None \<Rightarrow> None
           | Some h \<Rightarrow>
               Some (h * 60 + (case rest of [] \<Rightarrow> 0 | None # _ \<Rightarrow> 0 | Some m # _ \<Rightarrow> m))))"

text \<open>
  The loop of \<^verbatim>\<open>getScheduledTemp\<close> over the day's slots: the last slot with a time and a
  temperature whose minutes are at most \<open>currentTime\<close>.
\<close>

fun scanSlots :: "real \<Rightarrow> slot list \<Rightarrow> slot option \<Rightarrow> slot option" where
  "scanSlots currentTime [] activeSlot = activeSlot"
| "scanSlots currentTime (sl # rest) activeSlot =
     scanSlots currentTime rest
       (case (slot_time sl, slot_temp sl) of
          (Some parts, Some t) \<Rightarrow>
            (case slotMinutes parts of
               Some m \<Rightarrow> if m \<le> currentTime then Some sl else activeSlot
             | None \<Rightarrow> activeSlot)
        | _ \<Rightarrow> activeSlot)"

text \<open>
  \<^verbatim>\<open>getScheduledTemp\<close>; the result \<open>None\<close> is \<^verbatim>\<open>undefined\<close>, which the first branch returns
  when yesterday's last slot has no temperature.
\<close>

definition getScheduledTemp :: "clock \<Rightarrow> controller \<Rightarrow> real option" where
  "getScheduledTemp clk s =
     (case schedule s of
        None \<Rightarrow> Some (baseTargetTemp s)
      | Some sch \<Rightarrow>
          (let daySchedule = daySlots sch (dayIndex clk);
               yesterdaySchedule = daySlots sch ((dayIndex clk + 6) mod 7)
           in if daySchedule = [] then
                (if yesterdaySchedule \<noteq> [] then slot_temp (last yesterdaySchedule)
                 else Some (baseTargetTemp s))
              else
                (let currentTime = real (hours clk * 60 + minutes clk);
                     activeSlot = scanSlots currentTime daySchedule None;
                     activeSlot2 =
                       (case activeSlot of
                          Some sl \<Rightarrow> Some sl
                        | None \<Rightarrow>
                            if yesterdaySchedule \<noteq> [] then Some (last yesterdaySchedule)
                            else None)
                 in case activeSlot2 of
                      None \<Rightarrow> Some (baseTargetTemp s)
                    | Some sl \<Rightarrow>
                        (case slot_temp sl of
                           Some t \<Rightarrow> Some t
                         | None \<Rightarrow> Some (baseTargetTemp s)))))"

definition checkBoostExpiry :: "clock \<Rightarrow> controller \<Rightarrow> controller" where
  "checkBoostExpiry clk s =
     (if boostActive s \<and>
         (case boostEndTime s of None \<Rightarrow> False | Some e \<Rightarrow> e \<noteq> 0 \<and> now clk > e)
      then s\<lparr>boostActive := False, boostTemp := None, boostEndTime := None\<rparr>
      else s)"

text \<open>
  \<^verbatim>\<open>calculateEffectiveTarget\<close>. The result is \<open>None\<close> when the effective temperature is
  no number (an \<^verbatim>\<open>undefined\<close> scheduled temperature that no boost overrides): the target
  would be NaN, which the model of reals does not follow further.
\<close>

definition calculateEffectiveTarget :: "clock \<Rightarrow> controller \<Rightarrow> controller option" where
  "calculateEffectiveTarget clk s =
     (let effectiveTemp0 = Some (baseTargetTemp s);
          effectiveTemp1 =
            (if schedule s \<noteq> None then getScheduledTemp clk s else effectiveTemp0);
          effectiveTemp2 =
            (if awayMode s then map_option (\<lambda>e. min e (awayTemp s)) effectiveTemp1
             else effectiveTemp1);
          effectiveTemp3 =
            (if boostActive s \<and> boostTemp s \<noteq> None then boostTemp s else effectiveTemp2)
      in map_option (\<lambda>e. s\<lparr>targetTemp := clamp e (minTemp s) (maxTemp s)\<rparr>) effectiveTemp3)"

section \<open>PID core\<close>

text \<open>
  \<^verbatim>\<open>calculatePID(error, dt, activeMode)\<close>: the terms, and the controller with the new
  integral accumulator. The divisor \<^verbatim>\<open>2 * this.Ki || 1\<close> is 1 when \<^verbatim>\<open>2 * this.Ki\<close> is 0.
\<close>

definition integralLimit :: "controller \<Rightarrow> real" where
  "integralLimit s = (maxTemp s - minTemp s) / (if 2 * Ki s \<noteq> 0 then 2 * Ki s else 1)"

definition calculatePID :: "real \<Rightarrow> real \<Rightarrow> string \<Rightarrow> controller \<Rightarrow> pidTerms \<times> controller" where
  "calculatePID error dt activeMode s =
     (let absError = \<bar>error\<bar>;
          P = Kp s * absError;
          integral1 =
            (if activeMode = ''heat'' then integral s + error * dt
             else integral s + (- error) * dt);
          integral2 = clamp integral1 0 (integralLimit s);
          I = Ki s * integral2;
          errorChange = \<bar>error\<bar> - \<bar>lastError s\<bar>;
          derivative = (if dt > 0 then errorChange / dt else 0);
          D = Kd s * derivative
      in (\<lparr>pid_P = P, pid_I = I, pid_D = D, adjustment = P + I + D\<rparr>,
          s\<lparr>integral := integral2\<rparr>))"

section \<open>Recording and trend detection\<close>

definition recordTemperature :: "real \<Rightarrow> int \<Rightarrow> controller \<Rightarrow> controller" where
  "recordTemperature t timestamp s =
     (let oneHourAgo = timestamp - 3600000;
          history = filter (\<lambda>e. snd e > oneHourAgo) (temperatureHistory s @ [(t, timestamp)]);
          window = trendWindow s @ [t]
      in s\<lparr>temperatureHistory := history,
            trendWindow := (if length window > trendWindowSize then tl window else window)\<rparr>)"

definition detectTrend :: "controller \<Rightarrow> string" where
  "detectTrend s =
     (if length (trendWindow s) < 3 then ''unknown''
      else
        (let first = trendWindow s ! 0;
             lst = trendWindow s ! (length (trendWindow s) - 1);
             diff = lst - first
         in if diff > 0.1 then ''heating''
            else if diff < - 0.1 then ''cooling''
            else ''stable''))"

section \<open>Learning\<close>

record characteristics =
  timeConstant :: real
  deadTime :: real

text \<open>
  The first loop of \<^verbatim>\<open>estimateThermalCharacteristics\<close>: the largest deviation from the
  first sample and the index where it is first reached.
\<close>

definition findMaxChange :: "real list \<Rightarrow> real \<times> nat" where
  "findMaxChange temps =
     foldl (\<lambda>(maxChange, changeEndIdx) i.
              (let change = \<bar>temps ! i - temps ! 0\<bar>
               in if change > maxChange then (change, i) else (maxChange, changeEndIdx)))
           (0, 0) [1..<length temps]"

text \<open>
  The two search loops: the first index below \<open>changeEndIdx\<close> whose sample has reached
  \<open>target\<close> in the direction of the change, \<open>dflt\<close> when the loop ends without a break.
\<close>

definition firstReached :: "real list \<Rightarrow> nat \<Rightarrow> real \<Rightarrow> nat \<Rightarrow> nat" where
  "firstReached temps changeEndIdx target dflt =
     (case find (\<lambda>i. (temps ! 0 < temps ! changeEndIdx \<and> temps ! i \<ge> target) \<or>
                      (temps ! 0 > temps ! changeEndIdx \<and> temps ! i \<le> target))
                [0..<changeEndIdx] of
        None \<Rightarrow> dflt
      | Some i \<Rightarrow> i)"

definition estimateThermalCharacteristics :: "controller \<Rightarrow> characteristics" where
  "estimateThermalCharacteristics s =
     (if length (temperatureHistory s) < 10 then \<lparr>timeConstant = 0, deadTime = 0\<rparr>
      else
        (let temps = map fst (temperatureHistory s);
             times = map snd (temperatureHistory s);
             (maxChange, changeEndIdx) = findMaxChange temps
         in if maxChange < 0.5 then \<lparr>timeConstant = 0, deadTime = 0\<rparr>
            else
              (let target63 = temps ! 0 + 0.632 * (temps ! changeEndIdx - temps ! 0);
                   timeConstantIdx = firstReached temps changeEndIdx target63 changeEndIdx;
                   tc = real_of_int (times ! timeConstantIdx - times ! 0) / 1000;
                   target10 = temps ! 0 + 0.1 * (temps ! changeEndIdx - temps ! 0);
                   deadTimeIdx = firstReached temps changeEndIdx target10 0;
                   dt = real_of_int (times ! deadTimeIdx - times ! 0) / 1000
               in \<lparr>timeConstant = tc, deadTime = dt\<rparr>)))"

definition adaptPIDParameters :: "characteristics \<Rightarrow> controller \<Rightarrow> controller" where
  "adaptPIDParameters c s =
     (if timeConstant c \<le> 0 \<or> deadTime c \<le> 0 then s
      else
        (let ratio = deadTime c / timeConstant c;
             s1 =
               (if ratio < 0.1 then
                  (let kp = 1.35 / ratio
                   in s\<lparr>Kp := kp, Ki := kp / (2.5 * deadTime c), Kd := kp * 0.37 * deadTime c\<rparr>)
                else if ratio < 0.5 then
                  (let kp = (1.35 + 0.25 * ratio) / ratio
                   in s\<lparr>Kp := kp, Ki := kp / ((2.5 - 2.0 * ratio) * deadTime c),
                         Kd := kp * (0.37 - 0.3 * ratio) * deadTime c\<rparr>)
                else
                  (let kp = 0.9 / ratio
                   in s\<lparr>Kp := kp, Ki := kp / (3.3 * deadTime c), Kd := kp * 0.2 * deadTime c\<rparr>))
         in s1\<lparr>Kp := clamp (Kp s1) 0.1 5.0, Ki := clamp (Ki s1) 0.001 0.5,
               Kd := clamp (Kd s1) 0.0 2.0, parametersChanged := True\<rparr>))"

text \<open>
  \<^verbatim>\<open>learn\<close>; its arguments \<^verbatim>\<open>currentTemp\<close>, \<^verbatim>\<open>error\<close> and \<^verbatim>\<open>dt\<close> are never read.
  In \<^verbatim>\<open>Date.now() - this.learningStartTime\<close> a \<^verbatim>\<open>null\<close> start counts as 0.
\<close>

definition learn :: "clock \<Rightarrow> controller \<Rightarrow> controller" where
  "learn clk s =
     (let s1 = (if \<not> truthy (learningStartTime s) then s\<lparr>learningStartTime := Some (now clk)\<rparr>
                else s)
      in if length (temperatureHistory s1) < samplesNeeded then s1
         else
           (let c = estimateThermalCharacteristics s1;
                s2 =
                  (if timeConstant c > 0 \<and> deadTime c > 0
                   then (adaptPIDParameters c s1)\<lparr>learningComplete := True, learningPhase := False\<rparr>
                   else s1);
                learningDuration =
                  now clk - (case learningStartTime s2 of None \<Rightarrow> 0 | Some t \<Rightarrow> t)
            in if learningDuration > 3600000
               then s2\<lparr>learningComplete := True, learningPhase := False\<rparr>
               else s2))"

section \<open>Continuous adaptation\<close>

definition continuousAdaptation :: "controller \<Rightarrow> controller" where
  "continuousAdaptation s =
     (if length (performanceHistory s) < adaptationInterval then s
      else
        (let recentErrors =
               drop (length (performanceHistory s) - adaptationInterval) (performanceHistory s);
             avgError = foldl (\<lambda>a b. a + b) 0 recentErrors / real (length recentErrors);
             variance =
               foldl (\<lambda>sm e. sm + (e - avgError) ^ 2) 0 recentErrors / real (length recentErrors);
             stdDev = sqrt variance;
             oldKp = Kp s;
             oldKd = Kd s;
             s1 =
               (if stdDev > avgError * 0.5 then s\<lparr>Kp := Kp s * 0.95, Kd := Kd s * 0.95\<rparr>
                else if avgError > hysteresis s * 2 then s\<lparr>Kp := Kp s * 1.02\<rparr>
                else s);
             s2 = s1\<lparr>Kp := clamp (Kp s1) 0.1 5.0, Ki := clamp (Ki s1) 0.001 0.5,
                     Kd := clamp (Kd s1) 0.0 2.0\<rparr>
         in if Kp s2 \<noteq> oldKp \<or> Kd s2 \<noteq> oldKd then s2\<lparr>parametersChanged := True\<rparr> else s2))"

definition trackPerformance :: "real \<Rightarrow> controller \<Rightarrow> controller" where
  "trackPerformance error s =
     (let pushed = performanceHistory s @ [\<bar>error\<bar>];
          s1 = s\<lparr>performanceHistory := (if length pushed > 1000 then tl pushed else pushed)\<rparr>
      in if length (performanceHistory s1) \<ge> adaptationInterval \<and>
            length (performanceHistory s1) mod adaptationInterval = 0
         then continuousAdaptation s1
         else s1)"

text \<open>\<^verbatim>\<open>hasParametersChanged\<close>: the flag, and the controller with the flag cleared.\<close>

definition hasParametersChanged :: "controller \<Rightarrow> bool \<times> controller" where
  "hasParametersChanged s = (parametersChanged s, s\<lparr>parametersChanged := False\<rparr>)"

section \<open>The update cycle\<close>

text \<open>
  \<^verbatim>\<open>createOutput\<close>: the setpoint is rounded once more, the error and the PID terms are
  rounded to two decimals, an empty \<^verbatim>\<open>activeMode\<close> falls back to the configured mode.
\<close>

definition createOutput ::
  "real \<Rightarrow> real \<Rightarrow> string \<Rightarrow> pidTerms option \<Rightarrow> string \<Rightarrow> controller \<Rightarrow> result" where
  "createOutput out error trend pidResult activeMode s =
     \<lparr>res_output = roundToPrecision s out,
      res_targetTemp = targetTemp s,
      res_error = Math_round (error * 100) / 100,
      res_trend = trend,
      res_activeMode = (if activeMode = [] then mode s else activeMode),
      res_operatingMode = operatingMode s,
      res_pidTerms =
        map_option (\<lambda>p. (Math_round (pid_P p * 100) / 100, Math_round (pid_I p * 100) / 100,
                          Math_round (pid_D p * 100) / 100)) pidResult\<rparr>"

text \<open>The raw setpoint of \<^verbatim>\<open>update\<close> with its minimum step outside the hysteresis zone.\<close>

definition rawOutput :: "string \<Rightarrow> bool \<Rightarrow> real \<Rightarrow> controller \<Rightarrow> real" where
  "rawOutput activeMode inHysteresis adj s =
     (if activeMode = ''cool'' then
        (let raw = targetTemp s - adj
         in if \<not> inHysteresis then
              (let maxCool = targetTemp s - precision s in if raw > maxCool then maxCool else raw)
            else raw)
      else
        (let raw = targetTemp s + adj
         in if \<not> inHysteresis then
              (let minHeat = targetTemp s + precision s in if raw < minHeat then minHeat else raw)
            else raw))"

text \<open>The rate limiting of \<^verbatim>\<open>update\<close>, against the stored last setpoint.\<close>

definition rateLimit :: "real \<Rightarrow> controller \<Rightarrow> real" where
  "rateLimit raw s =
     (case lastOutput s of
        None \<Rightarrow> raw
      | Some lo \<Rightarrow>
          (let maxChange = maxOutputChange s;
               change = raw - lo
           in if \<bar>change\<bar> > maxChange then lo + Math_sign change * maxChange else raw))"

text \<open>The two identical idle branches of \<^verbatim>\<open>update\<close> (the mode does not match the room).\<close>

definition idle :: "real \<Rightarrow> string \<Rightarrow> controller \<Rightarrow> result \<times> controller" where
  "idle error activeMode s =
     (let out = roundToPrecision s (targetTemp s);
          s1 = s\<lparr>lastOutput := Some out, integral := max 0 (integral s - \<bar>error\<bar>)\<rparr>
      in (createOutput out error ''idle'' None activeMode s1, s1))"

text \<open>
  The PID part of \<^verbatim>\<open>update\<close>, reached when no idle branch applies: learning, PID terms,
  setpoint shaping (minimum step, rate limit, clamp, rounding), bookkeeping, performance
  tracking and trend.
\<close>

definition regulation ::
  "clock \<Rightarrow> real \<Rightarrow> real \<Rightarrow> real \<Rightarrow> string \<Rightarrow> bool \<Rightarrow> controller \<Rightarrow> result \<times> controller" where
  "regulation clk currentTemp dt error activeMode inHysteresis s =
     (let s1 = (if learningPhase s \<and> \<not> learningComplete s then learn clk s else s);
          (pidResult, s2) = calculatePID error dt activeMode s1;
          raw = rateLimit (rawOutput activeMode inHysteresis (adjustment pidResult) s2) s2;
          out = roundToPrecision s2 (clamp raw (minTemp s2) (maxTemp s2));
          s3 = s2\<lparr>lastError := error, lastTemp := Some currentTemp, lastOutput := Some out\<rparr>;
          s4 = (if \<not> learningPhase s3 then trackPerformance error s3 else s3);
          trend = (if inHysteresis then ''stable'' else detectTrend s4)
      in (createOutput out error trend (Some pidResult) activeMode s4, s4))"

text \<open>
  \<^verbatim>\<open>update\<close> from the recorded reading on: the error, the active mode, the hysteresis
  test, the two idle branches, and the PID part.
\<close>

definition regulate :: "clock \<Rightarrow> real \<Rightarrow> real \<Rightarrow> controller \<Rightarrow> result \<times> controller" where
  "regulate clk currentTemp dt s =
     (let error = targetTemp s - currentTemp;
          activeMode =
            (if mode s = ''heat_cool'' then (if error > 0 then ''heat'' else ''cool'') else mode s);
          inHysteresis = \<bar>error\<bar> < hysteresis s
      in if mode s = ''heat'' \<and> error < 0 then idle error activeMode s
         else if mode s = ''cool'' \<and> error > 0 then idle error activeMode s
         else regulation clk currentTemp dt error activeMode inHysteresis s)"

text \<open>
  The \<^verbatim>\<open>dt\<close> of \<^verbatim>\<open>update\<close>, in seconds: the time since the last update, the sample
  interval when \<^verbatim>\<open>lastUpdateTime\<close> is falsy.
\<close>

definition elapsed :: "clock \<Rightarrow> controller \<Rightarrow> real" where
  "elapsed clk s =
     (case lastUpdateTime s of
        None \<Rightarrow> sampleInterval s / 1000
      | Some t \<Rightarrow>
          if t \<noteq> 0 then real_of_int (now clk - t) / 1000 else sampleInterval s / 1000)"

text \<open>
  \<^verbatim>\<open>update(currentTemp)\<close> at the instant of \<open>clk\<close>. \<open>None\<close>: the effective target is no
  number (see \<open>calculateEffectiveTarget\<close>).
\<close>

definition update :: "clock \<Rightarrow> real \<Rightarrow> controller \<Rightarrow> (result \<times> controller) option" where
  "update clk currentTemp s0 =
     (let dt = elapsed clk s0;
          s1 = s0\<lparr>lastUpdateTime := Some (now clk)\<rparr>;
          s2 = checkBoostExpiry clk s1
      in case calculateEffectiveTarget clk s2 of
           None \<Rightarrow> None
         | Some s3 \<Rightarrow>
             Some (if operatingMode s3 = ''off'' then
                     (createOutput (roundToPrecision s3 (minTemp s3)) 0 ''off'' None (mode s3) s3, s3)
                   else regulate clk currentTemp dt (recordTemperature currentTemp (now clk) s3)))"

section \<open>Setters\<close>

text \<open>A JavaScript value as an argument of \<^verbatim>\<open>setSetpoint\<close>.\<close>

datatype js_value =
  JNumber real | JNaN | JString string | JBoolean bool | JNull | JUndefined | JObject

definition setSetpoint :: "js_value \<Rightarrow> controller \<Rightarrow> controller" where
  "setSetpoint v s =
     (case v of
        JNumber t \<Rightarrow>
          s\<lparr>baseTargetTemp := clamp t (minTemp s) (maxTemp s),
            targetTemp := clamp t (minTemp s) (maxTemp s),
            integral := 0\<rparr>
      | _ \<Rightarrow> s)"

definition setOperatingMode :: "string \<Rightarrow> controller \<Rightarrow> controller" where
  "setOperatingMode m s =
     (if m \<in> set [''manual'', ''schedule'', ''off''] then s\<lparr>operatingMode := m, integral := 0\<rparr>
      else s)"

text \<open>\<^verbatim>\<open>modeMap[mode] || mode\<close> of \<^verbatim>\<open>setMode\<close>, for a string.\<close>

definition normalizeMode :: "string \<Rightarrow> string" where
  "normalizeMode m =
     (if m = ''heating'' then ''heat''
      else if m = ''cooling'' then ''cool''
      else if m = ''auto'' then ''heat_cool''
      else m)"

definition setMode :: "string \<Rightarrow> controller \<Rightarrow> controller" where
  "setMode m s =
     (let normalizedMode = normalizeMode m
      in if normalizedMode \<in> set [''heat'', ''cool'', ''heat_cool'']
         then s\<lparr>mode := normalizedMode, integral := 0\<rparr>
         else s)"

section \<open>Activation latch of the node\<close>

text \<open>
  The end of the input handler of \<^verbatim>\<open>src/nodes/smart-thermostat.js\<close>: the two latches
  live in the node, \<open>cfgHysteresis\<close> and \<open>cfgPrecision\<close> are the fields of the
  node's \<^verbatim>\<open>controllerConfig\<close>. The result is \<^verbatim>\<open>isActive\<close> and the latches.
\<close>

record latch =
  wasHeatingActive :: bool
  wasCoolingActive :: bool

definition activation :: "real \<Rightarrow> real \<Rightarrow> result \<Rightarrow> latch \<Rightarrow> bool \<times> latch" where
  "activation cfgHysteresis cfgPrecision r l =
     (let activeMode = res_activeMode r;
          error = res_error r;
          operatingMode = res_operatingMode r
      in if operatingMode = ''off'' then
           (False, l\<lparr>wasHeatingActive := False, wasCoolingActive := False\<rparr>)
         else if activeMode = ''heat'' then
           (let setpointAboveTarget = res_output r > res_targetTemp r + cfgPrecision;
                tempFalling = (res_trend r = ''cooling'');
                l1 =
                  (if error > cfgHysteresis then l\<lparr>wasHeatingActive := True\<rparr>
                   else if setpointAboveTarget \<and> tempFalling \<and> error > 0
                   then l\<lparr>wasHeatingActive := True\<rparr>
                   else if error \<le> 0 then l\<lparr>wasHeatingActive := False\<rparr>
                   else l)
            in (wasHeatingActive l1, l1))
         else if activeMode = ''cool'' then
           (let setpointBelowTarget = res_output r < res_targetTemp r - cfgPrecision;
                tempRising = (res_trend r = ''warming'');
                l1 =
                  (if error < - cfgHysteresis then l\<lparr>wasCoolingActive := True\<rparr>
                   else if setpointBelowTarget \<and> tempRising \<and> error < 0
                   then l\<lparr>wasCoolingActive := True\<rparr>
                   else if error \<ge> 0 then l\<lparr>wasCoolingActive := False\<rparr>
                   else l)
            in (wasCoolingActive l1, l1))
         else (False, l))"

section \<open>Rounding to the precision in IEEE binary64\<close>

text \<open>
  JavaScript numbers are IEEE 754 binary64 values. A finite double is a real
  \<open>m * 2 ^ e\<close> with an integer \<open>\<bar>m\<bar> < 2 ^ 53\<close> and \<open>- 1074 \<le> e\<close>; an arithmetic
  operation returns the exact result rounded to the nearest double, a tie going to the
  even significand. \<open>binary64 x\<close> is that rounding of the real \<open>x\<close>. The model is the
  code's arithmetic as long as no result overflows (magnitudes below \<open>2 ^ 1024\<close>);
  infinities, NaN and the sign of zero are not modelled.
\<close>

text \<open>The nearest integer, a tie going to the even one.\<close>

definition roundTiesToEven :: "real \<Rightarrow> int" where
  "roundTiesToEven x =
     (let f = \<lfloor>x\<rfloor>; d = x - of_int f
      in if d < 1 / 2 then f else if d > 1 / 2 then f + 1 else if even f then f else f + 1)"

text \<open>
  The binary exponent of a positive real, \<open>\<lfloor>log\<^sub>2 x\<rfloor>\<close>, computed from the bit length of
  an integer (lemma \<open>ilog2_bounds\<close> below).
\<close>

definition ilog2 :: "real \<Rightarrow> int" where
  "ilog2 x = (if x \<ge> 1 then bitlen \<lfloor>x\<rfloor> - 1 else - bitlen (\<lceil>1 / x\<rceil> - 1))"

text \<open>
  Rounding to binary64: the spacing of the doubles around \<open>x\<close> is \<open>2 ^ e\<close> with
  \<open>e = \<lfloor>log\<^sub>2 \<bar>x\<bar>\<rfloor> - 52\<close>, and \<open>2 ^ - 1074\<close> in the subnormal range.
\<close>

definition binary64 :: "real \<Rightarrow> real" where
  "binary64 x =
     (if x = 0 then 0
      else (let e = max (ilog2 \<bar>x\<bar> - 52) (- 1074)
            in of_int (roundTiesToEven (x / 2 powi e)) * 2 powi e))"

text \<open>
  \<^verbatim>\<open>roundToPrecision(value)\<close> as the code computes it, for a double \<open>v\<close> and a precision
  that is a double: the division is rounded, \<^verbatim>\<open>Math.round\<close> is exact on a double (its
  result is an integer double), and the multiplication is rounded.
\<close>

definition roundToPrecision_binary64 :: "controller \<Rightarrow> real \<Rightarrow> real" where
  "roundToPrecision_binary64 s v = binary64 (Math_round (binary64 (v / precision s)) * precision s)"

text \<open>
  Half a unit in the last place of a result \<open>y\<close>: the largest error of one rounding.
\<close>

definition roundingBound :: "real \<Rightarrow> real" where
  "roundingBound y = max (\<bar>y\<bar> / 2 ^ 53) (2 powi (- 1075))"

section \<open>Sequences of updates\<close>

text \<open>
  The readings of a run, each with the clock of its call, processed by successive
  \<^verbatim>\<open>update\<close> calls on one controller with no other call in between: the list of the
  results, each with the controller after the call.
\<close>

fun run :: "(clock \<times> real) list \<Rightarrow> controller \<Rightarrow> (result \<times> controller) list option" where
  "run [] s = Some []"
| "run ((clk, t) # rest) s =
     (case update clk t s of
        None \<Rightarrow> None
      | Some (r, s') \<Rightarrow> map_option (\<lambda>tr. (r, s') # tr) (run rest s'))"

section \<open>Example controllers and clocks\<close>

text \<open>Monday's slots at 06:00 and 22:00, with their temperatures.\<close>

definition mondaySlots :: "real \<Rightarrow> real \<Rightarrow> slot list" where
  "mondaySlots t06 t22 =
     [\<lparr>slot_time = Some [Some 6, Some 0], slot_temp = Some t06\<rparr>,
      \<lparr>slot_time = Some [Some 22, Some 0], slot_temp = Some t22\<rparr>]"

definition weekSchedule :: schedule where
  "weekSchedule =
     \<lparr>sunday = [], monday = mondaySlots 21 17,
      tuesday = [\<lparr>slot_time = Some [Some 7, Some 30], slot_temp = Some 20\<rparr>],
      wednesday = [], thursday = [], friday = [], saturday = []\<rparr>"

definition tuesday0200 :: clock where
  "tuesday0200 = \<lparr>now = 1000000, dayIndex = 2, hours = 2, minutes = 0\<rparr>"

definition boosted :: controller where
  "boosted = constructor\<lparr>schedule := Some weekSchedule, awayMode := True, boostActive := True,
                         boostTemp := Some 24, boostEndTime := Some 2000000\<rparr>"

definition offController :: controller where
  "offController = constructor\<lparr>operatingMode := ''off'', integral := 3, lastOutput := Some 22\<rparr>"

text \<open>
  A plant with a time constant of 200 s and a dead time of 10 s, for which tuning clamps
  all three gains (to 5, 0.5 and 2), and a controller that holds these gains already.
\<close>

definition fastPlant :: characteristics where
  "fastPlant = \<lparr>timeConstant = 200, deadTime = 10\<rparr>"

definition tunedController :: controller where
  "tunedController = constructor\<lparr>Kp := 5, Ki := 0.5, Kd := 2\<rparr>"

definition sluggishController :: controller where
  "sluggishController =
     constructor\<lparr>learningPhase := False, performanceHistory := replicate 100 1\<rparr>"

definition flaggedController :: controller where
  "flaggedController = constructor\<lparr>parametersChanged := True\<rparr>"

text \<open>Readings one minute apart, and one an hour and some minutes after the first.\<close>

definition minute1 :: clock where
  "minute1 = \<lparr>now = 1000000, dayIndex = 1, hours = 10, minutes = 0\<rparr>"

definition minute2 :: clock where
  "minute2 = \<lparr>now = 1060000, dayIndex = 1, hours = 10, minutes = 1\<rparr>"

definition minute3 :: clock where
  "minute3 = \<lparr>now = 1120000, dayIndex = 1, hours = 10, minutes = 2\<rparr>"

definition hourLater :: clock where
  "hourLater = \<lparr>now = 4700000, dayIndex = 1, hours = 11, minutes = 1\<rparr>"

text \<open>The controller of a node configured for cooling, hysteresis 0.25, precision 0.1.\<close>

definition coolController :: controller where
  "coolController = constructor\<lparr>mode := ''cool'', hysteresis := 0.25, precision := 0.1\<rparr>"

definition latchOff :: latch where
  "latchOff = \<lparr>wasHeatingActive = False, wasCoolingActive = False\<rparr>"

text \<open>
  The default controller after a first reading of 16 degrees at \<open>minute1\<close>, and two
  later readings above the target of 21.
\<close>

definition heatedController :: controller where
  "heatedController =
     constructor\<lparr>integral := 250, lastError := 5, lastTemp := Some 16, lastOutput := Some 25,
       lastUpdateTime := Some 1000000, temperatureHistory := [(16, 1000000)],
       learningStartTime := Some 1000000, trendWindow := [16]\<rparr>"

definition warmReadings :: "(clock \<times> real) list" where
  "warmReadings = [(minute2, 22), (minute3, 23)]"

text \<open>A controller configured with precision 0.1, which the node reads as a double.\<close>

definition tenthController :: controller where
  "tenthController = constructor\<lparr>precision := binary64 0.1\<rparr>"

section \<open>Executable form of the adaptation step\<close>

lemma sqrt_gt_iff: "(sqrt v > a) = (v > a * \<bar>a\<bar>)"
proof -
  have "sqrt (a * \<bar>a\<bar>) = a"
    by (cases "a \<ge> 0") (simp_all add: real_sqrt_mult real_sqrt_minus abs_if)
  then show ?thesis
    by (metis real_sqrt_less_iff)
qed

text \<open>The comparison with the square root, squared, so that the step can be evaluated.\<close>

lemma continuousAdaptation_code [code]:
  "continuousAdaptation s =
     (if length (performanceHistory s) < adaptationInterval then s
      else
        (let recentErrors =
               drop (length (performanceHistory s) - adaptationInterval) (performanceHistory s);
             avgError = foldl (\<lambda>a b. a + b) 0 recentErrors / real (length recentErrors);
             variance =
               foldl (\<lambda>sm e. sm + (e - avgError) ^ 2) 0 recentErrors / real (length recentErrors);
             oldKp = Kp s;
             oldKd = Kd s;
             s1 =
               (if variance > avgError * 0.5 * \<bar>avgError * 0.5\<bar>
                then s\<lparr>Kp := Kp s * 0.95, Kd := Kd s * 0.95\<rparr>
                else if avgError > hysteresis s * 2 then s\<lparr>Kp := Kp s * 1.02\<rparr>
                else s);
             s2 = s1\<lparr>Kp := clamp (Kp s1) 0.1 5.0, Ki := clamp (Ki s1) 0.001 0.5,
                     Kd := clamp (Kd s1) 0.0 2.0\<rparr>
         in if Kp s2 \<noteq> oldKp \<or> Kd s2 \<noteq> oldKd then s2\<lparr>parametersChanged := True\<rparr> else s2))"
  unfolding continuousAdaptation_def Let_def sqrt_gt_iff ..

section \<open>Target priority\<close>

text \<open>
  C1. While boost is active (the flag is set, a boost temperature is stored, and the
  instant of the call is not past the expiry), the expiry check followed by the
  effective-target resolution sets the target to the boost temperature clamped to
  \<open>[minTemp, maxTemp]\<close> and changes nothing else, whatever the away flag, the away
  temperature, the schedule and the manual base target are.
\<close>

theorem C1_boost_priority:
  assumes "boostActive s" and "boostTemp s = Some b"
    and "case boostEndTime s of None \<Rightarrow> True | Some e \<Rightarrow> now clk \<le> e"
  shows "calculateEffectiveTarget clk (checkBoostExpiry clk s)
           = Some (s\<lparr>targetTemp := clamp b (minTemp s) (maxTemp s)\<rparr>)"
proof -
  have "checkBoostExpiry clk s = s"
    using assms(3) by (auto simp: checkBoostExpiry_def split: option.splits)
  then show ?thesis using assms(1,2) by (simp add: calculateEffectiveTarget_def)
qed

theorem C1_boost_priority_witness:
  "boostActive boosted \<and> boostTemp boosted = Some 24 \<and> awayMode boosted \<and>
   awayTemp boosted = 16 \<and>
   calculateEffectiveTarget tuesday0200 (checkBoostExpiry tuesday0200 boosted)
     = Some (boosted\<lparr>targetTemp := 24\<rparr>)"
proof -
  have 1: "boostActive boosted" and 2: "boostTemp boosted = Some 24"
    by (simp_all add: boosted_def)
  have 3: "case boostEndTime boosted of None \<Rightarrow> True | Some e \<Rightarrow> now tuesday0200 \<le> e"
    by (simp add: boosted_def tuesday0200_def)
  have "clamp 24 (minTemp boosted) (maxTemp boosted) = 24"
    by (simp add: clamp_def boosted_def constructor_def)
  moreover have "awayMode boosted \<and> awayTemp boosted = 16"
    by (simp add: boosted_def constructor_def)
  ultimately show ?thesis
    using C1_boost_priority [OF 1 2 3] 1 2 by simp
qed

section \<open>Schedule carry-over\<close>

lemma scanSlots_later:
  assumes "\<forall>sl\<in>set xs. \<forall>parts m.
             slot_time sl = Some parts \<longrightarrow> slotMinutes parts = Some m \<longrightarrow> c < m"
  shows "scanSlots c xs a = a"
  using assms by (induction xs arbitrary: a) (auto split: option.splits)

text \<open>
  C6. With Monday's list holding exactly the slots 06:00 and 22:00 (in this order), and
  Tuesday's list empty or without a slot at or before 02:00 (minute 120 of the day), the
  scheduled temperature on Tuesday at 02:00 is the temperature of Monday's 22:00 slot.
\<close>

theorem C6_schedule_carry_over:
  assumes "schedule s = Some sch"
    and "monday sch = mondaySlots t06 t22"
    and "\<forall>sl\<in>set (tuesday sch). \<forall>parts m.
           slot_time sl = Some parts \<longrightarrow> slotMinutes parts = Some m \<longrightarrow> 120 < m"
    and "dayIndex clk = 2" and "hours clk = 2" and "minutes clk = 0"
  shows "getScheduledTemp clk s = Some t22"
proof (cases "tuesday sch = []")
  case True
  then show ?thesis
    using assms(1,2,4) by (simp add: getScheduledTemp_def daySlots_def mondaySlots_def)
next
  case False
  have "scanSlots 120 (tuesday sch) None = None"
    using assms(3) by (rule scanSlots_later)
  then show ?thesis
    using False assms(1,2,4,5,6)
    by (simp add: getScheduledTemp_def daySlots_def mondaySlots_def)
qed

theorem C6_schedule_carry_over_witness:
  "getScheduledTemp tuesday0200 (constructor\<lparr>schedule := Some weekSchedule\<rparr>) = Some 17"
proof -
  let ?s = "constructor\<lparr>schedule := Some weekSchedule\<rparr>"
  have 1: "schedule ?s = Some weekSchedule" by simp
  have 2: "monday weekSchedule = mondaySlots 21 17" by (simp add: weekSchedule_def)
  have 3: "\<forall>sl\<in>set (tuesday weekSchedule). \<forall>parts m.
           slot_time sl = Some parts \<longrightarrow> slotMinutes parts = Some m \<longrightarrow> 120 < m"
    by (simp add: weekSchedule_def slotMinutes_def)
  have 4: "dayIndex tuesday0200 = 2" "hours tuesday0200 = 2" "minutes tuesday0200 = 0"
    by (simp_all add: tuesday0200_def)
  show ?thesis using C6_schedule_carry_over [OF 1 2 3 4] .
qed

section \<open>Rounding to the thermostat precision\<close>

lemma Math_round_near: "\<bar>Math_round y - y\<bar> \<le> 1 / 2"
  unfolding Math_round_def by linarith

subsection \<open>Properties of the binary64 rounding\<close>

lemma roundTiesToEven_near: "\<bar>of_int (roundTiesToEven z) - z\<bar> \<le> 1 / 2"
  unfolding roundTiesToEven_def Let_def by (auto simp: abs_if) linarith+

lemma roundTiesToEven_of_int: "roundTiesToEven (of_int n) = n"
  by (simp add: roundTiesToEven_def)

lemma ilog2_bounds:
  assumes "0 < x"
  shows "2 powi (ilog2 x) \<le> x \<and> x < 2 powi (ilog2 x + 1)"
proof (cases "1 \<le> x")
  case True
  let ?n = "\<lfloor>x\<rfloor>"
  have n: "0 < ?n" using True by linarith
  have b1: "1 \<le> bitlen ?n" using n by (auto simp: bitlen_alt_def)
  note bb = bitlen_bounds [OF n]
  have i: "ilog2 x = bitlen ?n - 1" using True by (simp add: ilog2_def)
  have "(2::real) powi (bitlen ?n - 1) = 2 ^ nat (bitlen ?n - 1)"
    using b1 by (simp add: power_int_def)
  also have "\<dots> = of_int (2 ^ nat (bitlen ?n - 1))" by simp
  also have "\<dots> \<le> of_int ?n" using bb by (intro of_int_le_iff [THEN iffD2]) simp
  also have "\<dots> \<le> x" by simp
  finally have lo: "2 powi (ilog2 x) \<le> x" by (simp add: i)
  have "?n + 1 \<le> 2 ^ nat (bitlen ?n)" using bb by simp
  then have "of_int (?n + 1) \<le> (of_int (2 ^ nat (bitlen ?n)) :: real)"
    by (intro of_int_le_iff [THEN iffD2])
  then have a: "of_int ?n + 1 \<le> (2 ^ nat (bitlen ?n) :: real)" by simp
  have b: "x < of_int ?n + 1" by linarith
  have c: "(2::real) powi (bitlen ?n) = 2 ^ nat (bitlen ?n)"
    using b1 by (simp add: power_int_def)
  have "x < 2 ^ nat (bitlen ?n)" using a b by linarith
  then have "x < 2 powi (ilog2 x + 1)" by (simp add: i c)
  then show ?thesis using lo by simp
next
  case False
  let ?c = "\<lceil>1 / x\<rceil>"
  let ?n = "?c - 1"
  have y: "1 < 1 / x" using False assms by simp
  have n: "0 < ?n" using y by linarith
  have b1: "1 \<le> bitlen ?n" using n by (auto simp: bitlen_alt_def)
  note bb = bitlen_bounds [OF n]
  have i: "ilog2 x = - bitlen ?n" using False by (simp add: ilog2_def)
  have p1: "(2::real) powi (- bitlen ?n) = 1 / 2 ^ nat (bitlen ?n)"
    using b1 by (simp add: power_int_def field_simps)
  have p2: "(2::real) powi (1 - bitlen ?n) = 1 / 2 ^ nat (bitlen ?n - 1)"
    using b1 by (simp add: power_int_def field_simps nat_diff_distrib)
  have cb: "?c \<le> 2 ^ nat (bitlen ?n)" using bb by simp
  have "1 / x \<le> of_int ?c" by (rule le_of_int_ceiling)
  also have "of_int ?c \<le> (of_int (2 ^ nat (bitlen ?n)) :: real)"
    using cb by (intro of_int_le_iff [THEN iffD2])
  also have "\<dots> = 2 ^ nat (bitlen ?n)" by simp
  finally have "1 / x \<le> 2 ^ nat (bitlen ?n)" .
  then have lo: "1 / 2 ^ nat (bitlen ?n) \<le> x"
    using assms by (simp add: field_simps)
  have nb: "2 ^ nat (bitlen ?n - 1) \<le> ?n" using bb by simp
  have "(2 ^ nat (bitlen ?n - 1) :: real) = of_int (2 ^ nat (bitlen ?n - 1))" by simp
  also have "\<dots> \<le> of_int ?n"
    using nb by (intro of_int_le_iff [THEN iffD2])
  also have "(of_int ?n :: real) < 1 / x" by linarith
  finally have "2 ^ nat (bitlen ?n - 1) < 1 / x" .
  then have hi: "x < 1 / 2 ^ nat (bitlen ?n - 1)"
    using assms by (simp add: field_simps)
  have "ilog2 x + 1 = 1 - bitlen ?n" by (simp add: i)
  then show ?thesis using lo hi by (simp add: i p1 p2)
qed

lemma roundingBound_nonneg: "0 \<le> roundingBound y"
  by (simp add: roundingBound_def le_max_iff_disj)

lemma two_powi_less_imp: "(2::real) powi a < 2 powi b \<Longrightarrow> a < b"
  using power_int_increasing [of b a "2::real"] by (cases "a < b") auto

text \<open>A result is off by at most half a unit in the last place.\<close>

lemma binary64_error: "\<bar>binary64 y - y\<bar> \<le> roundingBound y"
proof (cases "y = 0")
  case True
  then show ?thesis by (simp add: binary64_def roundingBound_nonneg)
next
  case False
  define e where "e = max (ilog2 \<bar>y\<bar> - 52) (- 1074)"
  define P where "P = (2::real) powi e"
  have P: "0 < P" by (simp add: P_def)
  have b: "binary64 y = of_int (roundTiesToEven (y / P)) * P"
    using False by (simp add: binary64_def Let_def e_def P_def)
  have "(of_int (roundTiesToEven (y / P)) - y / P) * P = binary64 y - y"
    using P by (simp add: b left_diff_distrib)
  then have "\<bar>binary64 y - y\<bar> = \<bar>of_int (roundTiesToEven (y / P)) - y / P\<bar> * P"
    using P abs_mult [of "of_int (roundTiesToEven (y / P)) - y / P" P] by simp
  also have "\<dots> \<le> 1 / 2 * P"
    using P roundTiesToEven_near [of "y / P"] by (intro mult_right_mono) simp_all
  finally have err: "\<bar>binary64 y - y\<bar> \<le> P / 2" by simp
  show ?thesis
  proof (cases "- 1074 \<le> ilog2 \<bar>y\<bar> - 52")
    case True
    then have "e = ilog2 \<bar>y\<bar> - 52" by (simp add: e_def)
    then have "P = 2 powi (ilog2 \<bar>y\<bar>) / 2 ^ 52"
      by (simp add: P_def power_int_diff)
    moreover have "2 powi (ilog2 \<bar>y\<bar>) \<le> \<bar>y\<bar>"
      using ilog2_bounds [of "\<bar>y\<bar>"] False by simp
    ultimately have "P / 2 \<le> \<bar>y\<bar> / 2 ^ 53" by (simp add: field_simps)
    then show ?thesis using err by (simp add: roundingBound_def le_max_iff_disj)
  next
    case False
    then have "e = - 1074" by (simp add: e_def)
    then have "P / 2 = 2 powi (- 1075)"
      using power_int_diff [of "2::real" "- 1074" 1] by (simp add: P_def)
    then show ?thesis using err by (simp add: roundingBound_def le_max_iff_disj)
  qed
qed

text \<open>The doubles: an integer below \<open>2 ^ 53\<close> in magnitude times a power of two.\<close>

lemma binary64_exact:
  assumes "\<bar>m\<bar> < 2 ^ 53" and "- 1074 \<le> e"
  shows "binary64 (of_int m * 2 powi e) = of_int m * 2 powi e"
proof (cases "m = 0")
  case True
  then show ?thesis by (simp add: binary64_def)
next
  case False
  define r where "r = real_of_int m * 2 powi e"
  define e' where "e' = max (ilog2 \<bar>r\<bar> - 52) (- 1074)"
  have r0: "r \<noteq> 0" using False by (simp add: r_def)
  have ar: "\<bar>r\<bar> = \<bar>real_of_int m\<bar> * 2 powi e" by (simp add: r_def abs_mult)
  have "real_of_int \<bar>m\<bar> < real_of_int (2 ^ 53)"
    using assms(1) by (rule of_int_less_iff [THEN iffD2])
  then have "\<bar>real_of_int m\<bar> < 2 ^ 53" by simp
  then have "\<bar>r\<bar> < 2 ^ 53 * 2 powi e"
    unfolding ar by (intro mult_strict_right_mono) simp_all
  also have "\<dots> = 2 powi (53 + e)" by (simp add: power_int_add)
  finally have "2 powi (ilog2 \<bar>r\<bar>) < (2::real) powi (53 + e)"
    using ilog2_bounds [of "\<bar>r\<bar>"] r0 by simp
  then have "ilog2 \<bar>r\<bar> < 53 + e" by (rule two_powi_less_imp)
  then have le: "e' \<le> e" using assms(2) by (simp add: e'_def)
  have "2 powi e = (2::real) powi e' * 2 powi (e - e')"
    by (simp flip: power_int_add)
  also have "(2::real) powi (e - e') = 2 ^ nat (e - e')"
    using le by (simp add: power_int_def)
  finally have "r / 2 powi e' = of_int (m * 2 ^ nat (e - e'))"
    by (simp add: r_def)
  then have "roundTiesToEven (r / 2 powi e') = m * 2 ^ nat (e - e')"
    by (simp only: roundTiesToEven_of_int)
  then have "of_int (roundTiesToEven (r / 2 powi e')) * 2 powi e' = r / 2 powi e' * 2 powi e'"
    using \<open>r / 2 powi e' = of_int (m * 2 ^ nat (e - e'))\<close> by simp
  also have "\<dots> = r" by simp
  finally show ?thesis
    using r0 by (simp add: binary64_def Let_def e'_def r_def)
qed

lemma binary64_fixed:
  assumes "binary64 x = x"
  shows "\<exists>m e. x = of_int m * 2 powi e \<and> \<bar>m\<bar> < 2 ^ 53 \<and> - 1074 \<le> e"
proof (cases "x = 0")
  case True
  then show ?thesis by (intro exI [of _ 0] exI [of _ 0]) simp
next
  case False
  define e where "e = max (ilog2 \<bar>x\<bar> - 52) (- 1074)"
  define m where "m = roundTiesToEven (x / 2 powi e)"
  have x: "x = of_int m * 2 powi e"
    using assms False by (simp add: binary64_def Let_def e_def m_def)
  have "\<bar>x\<bar> < 2 powi (ilog2 \<bar>x\<bar> + 1)"
    using ilog2_bounds [of "\<bar>x\<bar>"] False by simp
  also have "(2::real) powi (ilog2 \<bar>x\<bar> + 1) \<le> 2 powi (53 + e)"
    by (intro power_int_increasing) (simp_all add: e_def)
  also have "\<dots> = 2 ^ 53 * 2 powi e" by (simp add: power_int_add)
  finally have "\<bar>real_of_int m\<bar> * 2 powi e < 2 ^ 53 * 2 powi e"
    using x by (simp add: abs_mult)
  then have "\<bar>real_of_int m\<bar> < 2 ^ 53" by simp
  then have "real_of_int \<bar>m\<bar> < real_of_int (2 ^ 53)" by simp
  then have "\<bar>m\<bar> < 2 ^ 53" by (rule of_int_less_iff [THEN iffD1])
  moreover have "- 1074 \<le> e" by (simp add: e_def)
  ultimately show ?thesis using x by blast
qed

lemma roundToPrecision_binary64_error:
  assumes "0 < precision s"
  shows "\<bar>roundToPrecision_binary64 s x - x\<bar>
           \<le> precision s / 2
             + roundingBound (Math_round (binary64 (x / precision s)) * precision s)
             + precision s * roundingBound (x / precision s)"
proof -
  define p where "p = precision s"
  define q where "q = binary64 (x / p)"
  define k where "k = Math_round q"
  have p: "0 < p" using assms by (simp add: p_def)
  have r: "roundToPrecision_binary64 s x = binary64 (k * p)"
    by (simp add: roundToPrecision_binary64_def k_def q_def p_def)
  have 1: "\<bar>binary64 (k * p) - k * p\<bar> \<le> roundingBound (k * p)"
    by (rule binary64_error)
  have "\<bar>k - q\<bar> * p \<le> 1 / 2 * p"
    using p Math_round_near [of q] by (intro mult_right_mono) (simp_all add: k_def)
  moreover have "\<bar>k - q\<bar> * p = \<bar>k * p - q * p\<bar>"
    using p abs_mult [of "k - q" p] by (simp add: left_diff_distrib)
  ultimately have 2: "\<bar>k * p - q * p\<bar> \<le> p / 2" by simp
  have "\<bar>q - x / p\<bar> * p \<le> roundingBound (x / p) * p"
    using p binary64_error [of "x / p"] by (intro mult_right_mono) (simp_all add: q_def)
  moreover have "\<bar>q - x / p\<bar> * p = \<bar>q * p - x\<bar>"
    using p abs_mult [of "q - x / p" p] by (simp add: left_diff_distrib)
  ultimately have 3: "\<bar>q * p - x\<bar> \<le> p * roundingBound (x / p)" by (simp add: mult.commute)
  have "\<bar>binary64 (k * p) - x\<bar> \<le> p / 2 + roundingBound (k * p) + p * roundingBound (x / p)"
    using 1 2 3 by linarith
  then show ?thesis
    unfolding r unfolding k_def q_def p_def .
qed

text \<open>
  For the precisions 1 and 0.5 and a double of magnitude at most \<open>2 ^ 51\<close> neither
  operation rounds: the result is the one of exact arithmetic.
\<close>

lemma roundToPrecision_binary64_exact:
  assumes "precision s = 1 \<or> precision s = 1 / 2" and "binary64 x = x" and "\<bar>x\<bar> \<le> 2 ^ 51"
  shows "roundToPrecision_binary64 s x = Math_round (x / precision s) * precision s"
proof -
  have "\<exists>j::int. precision s = 2 powi j \<and> (j = 0 \<or> j = - 1)"
  proof (cases "precision s = 1")
    case True
    then show ?thesis by (intro exI [of _ 0]) simp
  next
    case False
    then have "precision s = 1 / 2" using assms(1) by simp
    then show ?thesis by (intro exI [of _ "- 1"]) (simp add: power_int_minus)
  qed
  then obtain j :: int where j: "precision s = 2 powi j" "j = 0 \<or> j = - 1" by blast
  obtain m e where x: "x = of_int m * 2 powi e" and m: "\<bar>m\<bar> < 2 ^ 53" and e: "- 1074 \<le> e"
    using binary64_fixed [OF assms(2)] by blast
  have "x / precision s = of_int m * 2 powi (e - j)"
    by (simp add: x j(1) power_int_diff)
  moreover have "- 1074 \<le> e - j" using e j(2) by auto
  ultimately have q: "binary64 (x / precision s) = x / precision s"
    using binary64_exact [OF m, of "e - j"] by simp
  define k where "k = \<lfloor>x / precision s + 1 / 2\<rfloor>"
  have "\<bar>x / precision s\<bar> \<le> 2 ^ 52"
    using assms(1)
  proof
    assume "precision s = 1"
    then show ?thesis using assms(3) by simp
  next
    assume a: "precision s = 1 / 2"
    have "x / precision s = x * 2" unfolding a by simp
    then show ?thesis using assms(3) by (simp add: abs_mult)
  qed
  moreover have "real_of_int k \<le> x / precision s + 1 / 2"
    unfolding k_def by (rule of_int_floor_le)
  moreover have "x / precision s + 1 / 2 < real_of_int k + 1"
    unfolding k_def by (rule real_of_int_floor_add_one_gt)
  moreover have "(2::real) ^ 52 + 1 / 2 < 2 ^ 53" by simp
  ultimately have "\<bar>real_of_int k\<bar> < 2 ^ 53" by linarith
  then have "real_of_int \<bar>k\<bar> < real_of_int (2 ^ 53)" by simp
  then have k: "\<bar>k\<bar> < 2 ^ 53" by (rule of_int_less_iff [THEN iffD1])
  have "- 1074 \<le> j" using j(2) by auto
  then have "binary64 (of_int k * 2 powi j) = of_int k * 2 powi j"
    by (rule binary64_exact [OF k])
  then have kp: "binary64 (of_int k * precision s) = of_int k * precision s"
    by (simp only: j(1))
  have mr: "Math_round (x / precision s) = of_int k"
    by (simp only: Math_round_def k_def)
  have "roundToPrecision_binary64 s x = binary64 (Math_round (x / precision s) * precision s)"
    by (simp only: roundToPrecision_binary64_def q)
  then show ?thesis by (simp only: mr kp)
qed

text \<open>
  C7, as claimed, fails on the arithmetic of the code. With the precision 0.1 (the double
  nearest to it) and the reading 20.25 the quotient rounds to 202.5, \<^verbatim>\<open>Math.round\<close> gives
  203, and the product rounds to the double \<open>5713942027226317 / 2 ^ 48\<close>, printed as
  20.3. Its distance from 20.25 exceeds half a precision step, so it is no integer multiple
  of the precision within half a step.
\<close>

theorem C7_binary64_exceeds_half_step:
  "0 < precision tenthController \<and> binary64 20.25 = 20.25 \<and>
   roundToPrecision_binary64 tenthController 20.25 = 5713942027226317 / 2 ^ 48 \<and>
   \<not> ((\<exists>k::int. roundToPrecision_binary64 tenthController 20.25
                    = of_int k * precision tenthController) \<and>
       \<bar>roundToPrecision_binary64 tenthController 20.25 - 20.25\<bar>
         \<le> precision tenthController / 2)"
proof -
  have 1: "0 < precision tenthController" by code_simp
  have 2: "binary64 20.25 = 20.25" by code_simp
  have 3: "roundToPrecision_binary64 tenthController 20.25 = 5713942027226317 / 2 ^ 48"
    by code_simp
  have 4: "\<not> \<bar>roundToPrecision_binary64 tenthController 20.25 - 20.25\<bar>
         \<le> precision tenthController / 2" by code_simp
  show ?thesis using 1 2 3 4 by blast
qed

text \<open>
  C7, amended. For a positive precision and no overflow, \<open>roundToPrecision\<close> returns the
  double nearest to an integer multiple \<open>k\<close> times the precision, and its distance from
  the argument is at most half a precision step plus the errors of the two roundings: half
  a unit in the last place of the product, and the precision times half a unit in the last
  place of the quotient. For the precisions 1 and 0.5 and a double of magnitude at most
  \<open>2 ^ 51\<close> the result is exactly an integer multiple of the precision within half a
  step.
\<close>

theorem C7_roundToPrecision_binary64:
  assumes "0 < precision s"
    and "\<bar>x / precision s\<bar> < 2 ^ 1023"
    and "\<bar>Math_round (binary64 (x / precision s)) * precision s\<bar> < 2 ^ 1023"
  shows "(\<exists>k::int. roundToPrecision_binary64 s x = binary64 (of_int k * precision s)) \<and>
         \<bar>roundToPrecision_binary64 s x - x\<bar>
           \<le> precision s / 2
             + roundingBound (Math_round (binary64 (x / precision s)) * precision s)
             + precision s * roundingBound (x / precision s) \<and>
         ((precision s = 1 \<or> precision s = 1 / 2) \<and> binary64 x = x \<and> \<bar>x\<bar> \<le> 2 ^ 51
            \<longrightarrow> (\<exists>k::int. roundToPrecision_binary64 s x = of_int k * precision s) \<and>
                \<bar>roundToPrecision_binary64 s x - x\<bar> \<le> precision s / 2)"
proof (intro conjI impI)
  show "\<exists>k::int. roundToPrecision_binary64 s x = binary64 (of_int k * precision s)"
    unfolding roundToPrecision_binary64_def Math_round_def by blast
  show "\<bar>roundToPrecision_binary64 s x - x\<bar>
           \<le> precision s / 2
             + roundingBound (Math_round (binary64 (x / precision s)) * precision s)
             + precision s * roundingBound (x / precision s)"
    using assms(1) by (rule roundToPrecision_binary64_error)
next
  assume h: "(precision s = 1 \<or> precision s = 1 / 2) \<and> binary64 x = x \<and> \<bar>x\<bar> \<le> 2 ^ 51"
  then have ex: "roundToPrecision_binary64 s x = Math_round (x / precision s) * precision s"
    by (intro roundToPrecision_binary64_exact) simp_all
  show "\<exists>k::int. roundToPrecision_binary64 s x = of_int k * precision s"
    unfolding ex Math_round_def by blast
  let ?p = "precision s"
  have "\<bar>Math_round (x / ?p) - x / ?p\<bar> * ?p \<le> 1 / 2 * ?p"
    using assms(1) Math_round_near [of "x / ?p"] by (intro mult_right_mono) simp_all
  moreover have "\<bar>Math_round (x / ?p) - x / ?p\<bar> * ?p = \<bar>Math_round (x / ?p) * ?p - x\<bar>"
    using assms(1) abs_mult [of "Math_round (x / ?p) - x / ?p" ?p]
    by (simp add: left_diff_distrib)
  ultimately show "\<bar>roundToPrecision_binary64 s x - x\<bar> \<le> ?p / 2"
    unfolding ex by simp
qed

theorem C7_roundToPrecision_binary64_witness:
  "0 < precision constructor \<and> \<bar>21.25 / precision constructor\<bar> < 2 ^ 1023 \<and>
   \<bar>Math_round (binary64 (21.25 / precision constructor)) * precision constructor\<bar> < 2 ^ 1023 \<and>
   precision constructor = 1 / 2 \<and> binary64 21.25 = 21.25 \<and> \<bar>21.25\<bar> \<le> (2 ^ 51 :: real) \<and>
   roundToPrecision_binary64 constructor 21.25 = 21.5 \<and>
   (\<exists>k::int. roundToPrecision_binary64 constructor 21.25 = of_int k * precision constructor) \<and>
   \<bar>roundToPrecision_binary64 constructor 21.25 - 21.25\<bar> \<le> precision constructor / 2"
proof -
  have h: "0 < precision constructor" "\<bar>21.25 / precision constructor\<bar> < 2 ^ 1023"
    "\<bar>Math_round (binary64 (21.25 / precision constructor)) * precision constructor\<bar> < 2 ^ 1023"
    by code_simp+
  have g: "precision constructor = 1 / 2" "binary64 21.25 = 21.25" "\<bar>21.25\<bar> \<le> (2 ^ 51 :: real)"
    by code_simp+
  have v: "roundToPrecision_binary64 constructor 21.25 = 21.5" by code_simp
  note T = C7_roundToPrecision_binary64 [OF h]
  have e: "(\<exists>k::int. roundToPrecision_binary64 constructor 21.25 = of_int k * precision constructor) \<and>
   \<bar>roundToPrecision_binary64 constructor 21.25 - 21.25\<bar> \<le> precision constructor / 2"
    using T g by blast
  show ?thesis using h g v e by blast
qed

section \<open>Setters and invalid input\<close>

text \<open>
  C9, as claimed, fails for the thermal-mode setter: the legacy name \<open>heating\<close> is not
  one of \<open>heat\<close>, \<open>cool\<close>, \<open>heat_cool\<close>, yet \<open>setMode\<close> accepts it, sets the mode to
  \<open>heat\<close> and resets the integral accumulator.
\<close>

theorem C9_legacy_mode_accepted:
  "''heating'' \<notin> set [''heat'', ''cool'', ''heat_cool''] \<and>
   setMode ''heating'' (constructor\<lparr>mode := ''cool'', integral := 5\<rparr>)
     \<noteq> constructor\<lparr>mode := ''cool'', integral := 5\<rparr>"
proof -
  let ?s = "constructor\<lparr>mode := ''cool'', integral := 5\<rparr>"
  have "mode (setMode ''heating'' ?s) = ''heat''"
    by (simp add: setMode_def normalizeMode_def)
  moreover have "mode ?s = ''cool''" by simp
  ultimately have "setMode ''heating'' ?s \<noteq> ?s" by auto
  then show ?thesis by simp
qed

text \<open>
  C9, amended. The manual-target setter leaves the controller as it is for every argument
  that is no number (NaN included); the operating-mode setter for every string other than
  \<open>manual\<close>, \<open>schedule\<close>, \<open>off\<close>; the thermal-mode setter for every string other than
  \<open>heat\<close>, \<open>cool\<close>, \<open>heat_cool\<close> and the legacy names \<open>heating\<close>, \<open>cooling\<close>,
  \<open>auto\<close>. No field changes, the integral accumulator included, and the setters are
  total (nothing is raised).
\<close>

theorem C9_invalid_input_ignored:
  "((\<forall>t. v \<noteq> JNumber t) \<longrightarrow> setSetpoint v s = s) \<and>
   (m \<notin> set [''manual'', ''schedule'', ''off''] \<longrightarrow> setOperatingMode m s = s) \<and>
   (m \<notin> set [''heat'', ''cool'', ''heat_cool'', ''heating'', ''cooling'', ''auto'']
      \<longrightarrow> setMode m s = s)"
  by (cases v) (auto simp: setSetpoint_def setOperatingMode_def setMode_def normalizeMode_def)

theorem C9_invalid_input_ignored_witness:
  "(\<forall>t. JNaN \<noteq> JNumber t) \<and>
   setSetpoint JNaN (constructor\<lparr>integral := 5\<rparr>) = constructor\<lparr>integral := 5\<rparr> \<and>
   ''eco'' \<notin> set [''manual'', ''schedule'', ''off''] \<and>
   setOperatingMode ''eco'' (constructor\<lparr>integral := 5\<rparr>) = constructor\<lparr>integral := 5\<rparr> \<and>
   ''eco'' \<notin> set [''heat'', ''cool'', ''heat_cool'', ''heating'', ''cooling'', ''auto''] \<and>
   setMode ''eco'' (constructor\<lparr>integral := 5\<rparr>) = constructor\<lparr>integral := 5\<rparr>"
  using C9_invalid_input_ignored [of JNaN "constructor\<lparr>integral := 5\<rparr>" "''eco''"]
  by simp

section \<open>The update cycle in operating mode off\<close>

lemma Math_round_of_int: "Math_round (of_int k) = of_int k"
  unfolding Math_round_def by (simp add: floor_unique)

lemma roundToPrecision_idem:
  "roundToPrecision s (roundToPrecision s x) = roundToPrecision s x"
proof (cases "precision s = 0")
  case True
  then show ?thesis by (simp add: roundToPrecision_def)
next
  case False
  then show ?thesis
    unfolding roundToPrecision_def by (simp add: Math_round_of_int Math_round_def)
qed

lemma getScheduledTemp_cong:
  "schedule s' = schedule s \<Longrightarrow> baseTargetTemp s' = baseTargetTemp s
     \<Longrightarrow> getScheduledTemp clk s' = getScheduledTemp clk s"
  by (auto simp: getScheduledTemp_def Let_def split: option.splits)

lemma calculateEffectiveTarget_Some:
  assumes "getScheduledTemp clk s \<noteq> None"
  shows "\<exists>e. calculateEffectiveTarget clk s = Some (s\<lparr>targetTemp := e\<rparr>)"
  using assms by (auto simp: calculateEffectiveTarget_def Let_def)

text \<open>
  The head of \<open>update\<close>: when the scheduled temperature is a number, the effective target
  is one, and only the target field is written by its resolution.
\<close>

lemma update_head_Some:
  assumes "getScheduledTemp clk s \<noteq> None"
  shows "\<exists>e. calculateEffectiveTarget clk
                (checkBoostExpiry clk (s\<lparr>lastUpdateTime := Some (now clk)\<rparr>))
           = Some ((checkBoostExpiry clk (s\<lparr>lastUpdateTime := Some (now clk)\<rparr>))
                     \<lparr>targetTemp := e\<rparr>)"
proof -
  let ?s2 = "checkBoostExpiry clk (s\<lparr>lastUpdateTime := Some (now clk)\<rparr>)"
  have "schedule ?s2 = schedule s" "baseTargetTemp ?s2 = baseTargetTemp s"
    by (simp_all add: checkBoostExpiry_def)
  then have "getScheduledTemp clk ?s2 = getScheduledTemp clk s"
    by (rule getScheduledTemp_cong)
  then show ?thesis using assms calculateEffectiveTarget_Some by simp
qed

text \<open>
  C10, as claimed, fails: an update in operating mode off also writes the instant of the
  call into \<open>lastUpdateTime\<close>, which is neither the boost state nor the effective target.
\<close>

theorem C10_off_writes_lastUpdateTime:
  "operatingMode offController = ''off'' \<and> lastUpdateTime offController = None \<and>
   map_option (lastUpdateTime \<circ> snd) (update tuesday0200 20 offController)
     = Some (Some 1000000)"
  by code_simp

text \<open>
  C10, amended. In operating mode off (and with a scheduled temperature that is a number)
  \<open>update\<close> returns the minimum temperature rounded to the precision as its setpoint. Of
  the controller only \<open>lastUpdateTime\<close> (set to the instant of the call), the boost
  fields and the effective target may change: the temperature history, the trend window,
  the performance history, the integral accumulator, \<open>lastError\<close>, \<open>lastTemp\<close> and
  \<open>lastOutput\<close> stay as they are.
\<close>

theorem C10_off_mode:
  assumes "operatingMode s = ''off''" and "getScheduledTemp clk s \<noteq> None"
  shows "\<exists>r s'. update clk currentTemp s = Some (r, s') \<and>
           res_output r = roundToPrecision s (minTemp s) \<and>
           s' = s\<lparr>lastUpdateTime := Some (now clk), targetTemp := targetTemp s',
                  boostActive := boostActive s', boostTemp := boostTemp s',
                  boostEndTime := boostEndTime s'\<rparr> \<and>
           temperatureHistory s' = temperatureHistory s \<and> trendWindow s' = trendWindow s \<and>
           performanceHistory s' = performanceHistory s \<and> integral s' = integral s \<and>
           lastError s' = lastError s \<and> lastTemp s' = lastTemp s \<and>
           lastOutput s' = lastOutput s"
proof -
  let ?s2 = "checkBoostExpiry clk (s\<lparr>lastUpdateTime := Some (now clk)\<rparr>)"
  obtain e where e: "calculateEffectiveTarget clk ?s2 = Some (?s2\<lparr>targetTemp := e\<rparr>)"
    using update_head_Some [OF assms(2)] by blast
  let ?s3 = "?s2\<lparr>targetTemp := e\<rparr>"
  have off: "operatingMode ?s3 = ''off''"
    using assms(1) by (simp add: checkBoostExpiry_def)
  have u: "update clk currentTemp s =
             Some (createOutput (roundToPrecision ?s3 (minTemp ?s3)) 0 ''off'' None (mode ?s3) ?s3,
                   ?s3)"
    using e off by (simp add: update_def)
  have p: "precision ?s3 = precision s" "minTemp ?s3 = minTemp s"
    by (simp_all add: checkBoostExpiry_def)
  have out: "res_output (createOutput (roundToPrecision ?s3 (minTemp ?s3)) 0 ''off'' None
                           (mode ?s3) ?s3)
               = roundToPrecision s (minTemp s)"
    using p roundToPrecision_idem [of ?s3 "minTemp ?s3"]
    by (simp add: createOutput_def roundToPrecision_def)
  have frame: "?s3 = s\<lparr>lastUpdateTime := Some (now clk), targetTemp := targetTemp ?s3,
                  boostActive := boostActive ?s3, boostTemp := boostTemp ?s3,
                  boostEndTime := boostEndTime ?s3\<rparr>"
    by (simp add: checkBoostExpiry_def)
  have rest: "temperatureHistory ?s3 = temperatureHistory s \<and> trendWindow ?s3 = trendWindow s \<and>
           performanceHistory ?s3 = performanceHistory s \<and> integral ?s3 = integral s \<and>
           lastError ?s3 = lastError s \<and> lastTemp ?s3 = lastTemp s \<and>
           lastOutput ?s3 = lastOutput s"
    by (simp add: checkBoostExpiry_def)
  show ?thesis using u out frame rest by blast
qed

theorem C10_off_mode_witness:
  "operatingMode offController = ''off'' \<and>
   getScheduledTemp tuesday0200 offController \<noteq> None \<and>
   (\<exists>r s'. update tuesday0200 20 offController = Some (r, s') \<and> res_output r = 15 \<and>
      s' = offController\<lparr>lastUpdateTime := Some 1000000\<rparr>)"
proof -
  have 1: "operatingMode offController = ''off''" by code_simp
  have 2: "getScheduledTemp tuesday0200 offController \<noteq> None" by code_simp
  have 3: "update tuesday0200 20 offController
           = Some (\<lparr>res_output = 15, res_targetTemp = 21, res_error = 0, res_trend = ''off'',
                res_activeMode = ''heat'', res_operatingMode = ''off'', res_pidTerms = None\<rparr>,
                offController\<lparr>lastUpdateTime := Some 1000000\<rparr>)" by code_simp
  show ?thesis using C10_off_mode [OF 1 2, of 20] 1 2 3 by simp
qed

section \<open>The parameters-changed flag\<close>

text \<open>
  C8, as claimed, fails: a tuning step raises the flag although no gain differs from its
  value before the step (the controller already holds the gains the step computes).
\<close>

theorem C8_tuning_raises_flag_without_change:
  "0 < timeConstant fastPlant \<and> 0 < deadTime fastPlant \<and>
   Kp (adaptPIDParameters fastPlant tunedController) = Kp tunedController \<and>
   Ki (adaptPIDParameters fastPlant tunedController) = Ki tunedController \<and>
   Kd (adaptPIDParameters fastPlant tunedController) = Kd tunedController \<and>
   \<not> parametersChanged tunedController \<and>
   parametersChanged (adaptPIDParameters fastPlant tunedController)"
  by code_simp

text \<open>
  C8, amended. A tuning step (positive time constant and dead time) always raises the
  flag. A continuous-adaptation step raises it whenever \<open>Kp\<close> or \<open>Kd\<close> differ from
  their values before the step, and leaves it as it was when no gain differs. Reading the
  flag returns its value and clears it, so a second read returns false.
\<close>

theorem C8_parameters_changed_flag:
  "(0 < timeConstant c \<and> 0 < deadTime c \<longrightarrow> parametersChanged (adaptPIDParameters c s)) \<and>
   (Kp (continuousAdaptation s1) \<noteq> Kp s1 \<or> Kd (continuousAdaptation s1) \<noteq> Kd s1
      \<longrightarrow> parametersChanged (continuousAdaptation s1)) \<and>
   (Kp (continuousAdaptation s2) = Kp s2 \<and> Ki (continuousAdaptation s2) = Ki s2 \<and>
    Kd (continuousAdaptation s2) = Kd s2
      \<longrightarrow> parametersChanged (continuousAdaptation s2) = parametersChanged s2) \<and>
   hasParametersChanged s3 = (parametersChanged s3, s3\<lparr>parametersChanged := False\<rparr>) \<and>
   fst (hasParametersChanged (snd (hasParametersChanged s3))) = False"
proof (intro conjI impI)
  assume "0 < timeConstant c \<and> 0 < deadTime c"
  then show "parametersChanged (adaptPIDParameters c s)"
    by (simp add: adaptPIDParameters_def Let_def)
next
  assume "Kp (continuousAdaptation s1) \<noteq> Kp s1 \<or> Kd (continuousAdaptation s1) \<noteq> Kd s1"
  then show "parametersChanged (continuousAdaptation s1)"
    unfolding continuousAdaptation_def Let_def by (auto split: if_splits)
next
  assume "Kp (continuousAdaptation s2) = Kp s2 \<and> Ki (continuousAdaptation s2) = Ki s2 \<and>
    Kd (continuousAdaptation s2) = Kd s2"
  then show "parametersChanged (continuousAdaptation s2) = parametersChanged s2"
    unfolding continuousAdaptation_def Let_def by (auto split: if_splits)
qed (simp_all add: hasParametersChanged_def)

theorem C8_parameters_changed_flag_witness:
  "0 < timeConstant fastPlant \<and> 0 < deadTime fastPlant \<and>
   parametersChanged (adaptPIDParameters fastPlant constructor) \<and>
   Kp (continuousAdaptation sluggishController) \<noteq> Kp sluggishController \<and>
   parametersChanged (continuousAdaptation sluggishController) \<and>
   Kp (continuousAdaptation constructor) = Kp constructor \<and>
   Ki (continuousAdaptation constructor) = Ki constructor \<and>
   Kd (continuousAdaptation constructor) = Kd constructor \<and>
   parametersChanged (continuousAdaptation constructor) = parametersChanged constructor \<and>
   hasParametersChanged flaggedController
     = (True, flaggedController\<lparr>parametersChanged := False\<rparr>) \<and>
   fst (hasParametersChanged (snd (hasParametersChanged flaggedController))) = False"
proof -
  have 1: "0 < timeConstant fastPlant \<and> 0 < deadTime fastPlant" by code_simp
  have 2: "Kp (continuousAdaptation sluggishController) \<noteq> Kp sluggishController" by code_simp
  have 3: "Kp (continuousAdaptation constructor) = Kp constructor \<and>
   Ki (continuousAdaptation constructor) = Ki constructor \<and>
   Kd (continuousAdaptation constructor) = Kd constructor" by code_simp
  have 4: "parametersChanged flaggedController = True" by (simp add: flaggedController_def)
  show ?thesis
    using C8_parameters_changed_flag
            [of fastPlant constructor sluggishController constructor flaggedController]
      1 2 3 unfolding 4 by blast
qed

section \<open>The shape of an update\<close>

lemma update_Some_iff:
  "update clk t s = Some (r, s') \<longleftrightarrow>
     (\<exists>s3. calculateEffectiveTarget clk
              (checkBoostExpiry clk (s\<lparr>lastUpdateTime := Some (now clk)\<rparr>)) = Some s3 \<and>
           (if operatingMode s3 = ''off''
            then (createOutput (roundToPrecision s3 (minTemp s3)) 0 ''off'' None (mode s3) s3, s3)
            else regulate clk t (elapsed clk s) (recordTemperature t (now clk) s3)) = (r, s'))"
proof (cases "calculateEffectiveTarget clk
                (checkBoostExpiry clk (s\<lparr>lastUpdateTime := Some (now clk)\<rparr>))")
  case None
  then show ?thesis by (simp add: update_def)
next
  case (Some a)
  then show ?thesis by (simp add: update_def del: split_paired_Ex)
qed

text \<open>\<open>update\<close> returns a result whenever the scheduled temperature is a number.\<close>

lemma update_returns:
  assumes "getScheduledTemp clk s \<noteq> None"
  shows "\<exists>r s'. update clk t s = Some (r, s')"
proof -
  obtain e where "calculateEffectiveTarget clk
                    (checkBoostExpiry clk (s\<lparr>lastUpdateTime := Some (now clk)\<rparr>))
           = Some ((checkBoostExpiry clk (s\<lparr>lastUpdateTime := Some (now clk)\<rparr>))
                     \<lparr>targetTemp := e\<rparr>)"
    using update_head_Some [OF assms] by blast
  then show ?thesis by (simp add: update_def)
qed

section \<open>Learning timeout\<close>

text \<open>
  With at least 30 samples in the history, \<open>learn\<close> ends the learning phase once more
  than an hour has passed since its start, whatever the estimation gives.
\<close>

lemma learn_timeout:
  assumes "learningStartTime s = Some t0" and "t0 \<noteq> 0" and "now clk - t0 > 3600000"
    and "length (temperatureHistory s) \<ge> samplesNeeded"
  shows "learningComplete (learn clk s) \<and> \<not> learningPhase (learn clk s)"
  using assms by (simp add: learn_def truthy_def Let_def adaptPIDParameters_def)

text \<open>
  C4 fails on the code. A fresh controller gets a first reading, which starts learning,
  and a second reading more than an hour later. The second update reaches the PID step,
  but the history (cut to the last hour) holds one sample, fewer than 30, so \<open>learn\<close>
  returns before its timeout check: the controller stays in the learning phase.
\<close>

theorem C4_timeout_skipped_below_30_samples:
  "(case update minute1 20 constructor of
      None \<Rightarrow> False
    | Some (r1, s1) \<Rightarrow>
        learningStartTime s1 = Some 1000000 \<and>
        (case update hourLater 20 s1 of
           None \<Rightarrow> False
         | Some (r2, s2) \<Rightarrow>
             now hourLater - 1000000 > 3600000 \<and> res_pidTerms r2 \<noteq> None \<and>
             length (temperatureHistory s2) = 1 \<and>
             learningPhase s2 \<and> \<not> learningComplete s2))"
  by code_simp

section \<open>Trend labels and the cooling latch\<close>

lemma detectTrend_labels:
  assumes "set [''unknown'', ''heating'', ''cooling'', ''stable''] \<subseteq> L"
  shows "detectTrend s \<in> L"
  using assms by (simp add: detectTrend_def Let_def)

lemma regulate_trend_labels:
  assumes "set [''idle'', ''stable'', ''unknown'', ''heating'', ''cooling''] \<subseteq> L"
  shows "res_trend (fst (regulate clk t dt s)) \<in> L"
proof -
  have d: "\<And>x. detectTrend x \<in> L" using assms by (intro detectTrend_labels) simp
  have i: "''idle'' \<in> L" "''stable'' \<in> L" using assms by simp_all
  show ?thesis
    unfolding regulate_def regulation_def idle_def Let_def
    by (simp add: createOutput_def d i split: prod.splits)
qed

text \<open>The trend of a result is one of six labels; \<open>warming\<close> is none of them.\<close>

lemma update_trend_labels:
  assumes "update clk t s = Some (r, s')"
  shows "res_trend r \<in> set [''off'', ''idle'', ''stable'', ''unknown'', ''heating'', ''cooling'']"
proof -
  let ?L = "set [''off'', ''idle'', ''stable'', ''unknown'', ''heating'', ''cooling'']"
  have reg: "\<And>dt x. res_trend (fst (regulate clk t dt x)) \<in> ?L"
    by (rule regulate_trend_labels) simp
  obtain s3 where s3: "(if operatingMode s3 = ''off''
              then (createOutput (roundToPrecision s3 (minTemp s3)) 0 ''off'' None (mode s3) s3, s3)
              else regulate clk t (elapsed clk s) (recordTemperature t (now clk) s3)) = (r, s')"
    using assms unfolding update_Some_iff by blast
  show ?thesis
  proof (cases "operatingMode s3 = ''off''")
    case True
    then have "r = createOutput (roundToPrecision s3 (minTemp s3)) 0 ''off'' None (mode s3) s3"
      using s3 by auto
    then show ?thesis by (simp add: createOutput_def)
  next
    case False
    then have "r = fst (regulate clk t (elapsed clk s) (recordTemperature t (now clk) s3))"
      using s3 by (metis fst_conv)
    then show ?thesis using reg by simp
  qed
qed

text \<open>
  On every result of \<open>update\<close> the cooling latch behaves as if it had no proactive
  branch: it turns on below \<open>- hysteresis\<close>, off from 0 on, and holds in between.
\<close>

lemma cooling_latch_without_proactive_branch:
  assumes "update clk t s = Some (r, s')"
    and "res_operatingMode r \<noteq> ''off''" and "res_activeMode r = ''cool''"
  shows "wasCoolingActive (snd (activation h p r l)) =
           (if res_error r < - h then True
            else if res_error r \<ge> 0 then False
            else wasCoolingActive l)"
proof -
  have "res_trend r \<noteq> ''warming''"
    using update_trend_labels [OF assms(1)] by auto
  then show ?thesis
    using assms(2,3) by (simp add: activation_def Let_def)
qed

text \<open>
  C5 fails on the code. A node configured for cooling gets the readings 21, 21.125 and
  21.25 one minute apart, with the target at 21. At the third reading the error is
  \<open>- 0.25\<close> (negative, not below \<open>- hysteresis\<close>), the setpoint 20.3 is below target
  minus precision, and the newest sample of the trend window exceeds the oldest by 0.25:
  every condition of the proactive turn-on holds. Trend detection labels the rise
  \<open>heating\<close>, the latch compares with \<open>warming\<close>, and the latch stays off.
\<close>

theorem C5_proactive_cooling_never_fires:
  "(case update minute1 21 coolController of
      None \<Rightarrow> False
    | Some (r1, s1) \<Rightarrow>
        (case update minute2 21.125 s1 of
           None \<Rightarrow> False
         | Some (r2, s2) \<Rightarrow>
             (case update minute3 21.25 s2 of
                None \<Rightarrow> False
              | Some (r3, s3) \<Rightarrow>
                  res_activeMode r3 = ''cool'' \<and> res_operatingMode r3 = ''manual'' \<and>
                  res_error r3 = - 0.25 \<and>
                  res_output r3 < res_targetTemp r3 - precision coolController \<and>
                  trendWindow s3 = [21, 21.125, 21.25] \<and>
                  res_trend r3 = ''heating'' \<and>
                  activation (hysteresis coolController) (precision coolController) r3 latchOff
                    = (False, latchOff))))"
  by code_simp

section \<open>The integral accumulator\<close>

lemma roundToPrecision_near:
  assumes "0 < precision s"
  shows "\<bar>roundToPrecision s x - x\<bar> \<le> precision s / 2"
proof -
  let ?p = "precision s"
  have "\<bar>Math_round (x / ?p) - x / ?p\<bar> \<le> 1 / 2" by (rule Math_round_near)
  then have "\<bar>Math_round (x / ?p) - x / ?p\<bar> * ?p \<le> 1 / 2 * ?p"
    using assms by (simp add: mult_right_mono)
  moreover have "(Math_round (x / ?p) - x / ?p) * ?p = Math_round (x / ?p) * ?p - x"
    using assms by (simp add: left_diff_distrib)
  then have "\<bar>Math_round (x / ?p) - x / ?p\<bar> * ?p = \<bar>Math_round (x / ?p) * ?p - x\<bar>"
    using assms abs_mult [of "Math_round (x / ?p) - x / ?p" ?p] by simp
  ultimately show ?thesis
    unfolding roundToPrecision_def by simp
qed

lemma roundToPrecision_cong:
  "precision s' = precision s \<Longrightarrow> roundToPrecision s' x = roundToPrecision s x"
  by (simp add: roundToPrecision_def)

text \<open>Fields that learning writes: the gains, the flags and the learning start.\<close>

lemma learn_frame:
  "minTemp (learn clk s) = minTemp s" "maxTemp (learn clk s) = maxTemp s"
  "precision (learn clk s) = precision s" "maxOutputChange (learn clk s) = maxOutputChange s"
  "mode (learn clk s) = mode s" "targetTemp (learn clk s) = targetTemp s"
  "integral (learn clk s) = integral s" "lastOutput (learn clk s) = lastOutput s"
  by (simp_all add: learn_def adaptPIDParameters_def Let_def)

lemma clamp_bounds: "lo \<le> hi \<Longrightarrow> lo \<le> clamp v lo hi \<and> clamp v lo hi \<le> hi"
  by (simp add: clamp_def)

lemma adaptPIDParameters_Ki:
  assumes "0.001 \<le> Ki s \<and> Ki s \<le> 0.5"
  shows "0.001 \<le> Ki (adaptPIDParameters c s) \<and> Ki (adaptPIDParameters c s) \<le> 0.5"
proof (cases "timeConstant c \<le> 0 \<or> deadTime c \<le> 0")
  case True
  then show ?thesis using assms by (simp add: adaptPIDParameters_def)
next
  case False
  then obtain v where "Ki (adaptPIDParameters c s) = clamp v 0.001 0.5"
    by (simp add: adaptPIDParameters_def Let_def)
  then show ?thesis using clamp_bounds [of "0.001" "0.5" v] by simp
qed

lemma learn_Ki:
  assumes "0.001 \<le> Ki s \<and> Ki s \<le> 0.5"
  shows "0.001 \<le> Ki (learn clk s) \<and> Ki (learn clk s) \<le> 0.5"
proof -
  have a: "\<And>c x. Ki x = Ki s \<Longrightarrow>
             0.001 \<le> Ki (adaptPIDParameters c x) \<and> Ki (adaptPIDParameters c x) \<le> 0.5"
    using assms adaptPIDParameters_Ki by simp
  show ?thesis
    unfolding learn_def Let_def using assms a by simp
qed

lemma continuousAdaptation_frame:
  "minTemp (continuousAdaptation s) = minTemp s" "maxTemp (continuousAdaptation s) = maxTemp s"
  "precision (continuousAdaptation s) = precision s"
  "mode (continuousAdaptation s) = mode s" "targetTemp (continuousAdaptation s) = targetTemp s"
  "integral (continuousAdaptation s) = integral s"
  "lastOutput (continuousAdaptation s) = lastOutput s"
  "Ki (continuousAdaptation s) =
     (if length (performanceHistory s) < adaptationInterval then Ki s
      else clamp (Ki s) 0.001 0.5)"
  by (simp_all add: continuousAdaptation_def Let_def)

lemma trackPerformance_frame:
  "minTemp (trackPerformance e s) = minTemp s" "maxTemp (trackPerformance e s) = maxTemp s"
  "precision (trackPerformance e s) = precision s"
  "mode (trackPerformance e s) = mode s" "targetTemp (trackPerformance e s) = targetTemp s"
  "integral (trackPerformance e s) = integral s"
  "lastOutput (trackPerformance e s) = lastOutput s"
  by (simp_all add: trackPerformance_def Let_def continuousAdaptation_frame)

lemma trackPerformance_Ki:
  assumes "0.001 \<le> Ki s" and "Ki s \<le> 0.5"
  shows "Ki (trackPerformance e s) = Ki s"
  using assms by (simp add: trackPerformance_def Let_def continuousAdaptation_frame clamp_def)

lemma calculatePID_snd:
  "snd (calculatePID e dt a s) =
     s\<lparr>integral := clamp (if a = ''heat'' then integral s + e * dt else integral s + (- e) * dt)
                        0 (integralLimit s)\<rparr>"
  by (simp add: calculatePID_def Let_def)

lemma integralLimit_nonneg:
  assumes "minTemp s \<le> maxTemp s" and "0 \<le> Ki s"
  shows "0 \<le> integralLimit s"
  using assms by (simp add: integralLimit_def)

lemma integralLimit_cong:
  "minTemp s' = minTemp s \<Longrightarrow> maxTemp s' = maxTemp s \<Longrightarrow> Ki s' = Ki s
     \<Longrightarrow> integralLimit s' = integralLimit s"
  by (simp add: integralLimit_def)

text \<open>The controller after the PID part, step by step as in the source.\<close>

lemma regulation_snd:
  "snd (regulation clk t dt e a h s) =
     (let s1 = (if learningPhase s \<and> \<not> learningComplete s then learn clk s else s);
          s2 = snd (calculatePID e dt a s1);
          raw = rateLimit (rawOutput a h (adjustment (fst (calculatePID e dt a s1))) s2) s2;
          out = roundToPrecision s2 (clamp raw (minTemp s2) (maxTemp s2));
          s3 = s2\<lparr>lastError := e, lastTemp := Some t, lastOutput := Some out\<rparr>
      in if \<not> learningPhase s3 then trackPerformance e s3 else s3)"
  by (simp add: regulation_def Let_def case_prod_beta)

lemma regulation_integral:
  assumes "minTemp s \<le> maxTemp s" and "0.001 \<le> Ki s \<and> Ki s \<le> 0.5"
  shows "0 \<le> integral (snd (regulation clk t dt e a h s)) \<and>
         integral (snd (regulation clk t dt e a h s))
           \<le> integralLimit (snd (regulation clk t dt e a h s)) \<and>
         0.001 \<le> Ki (snd (regulation clk t dt e a h s)) \<and>
         Ki (snd (regulation clk t dt e a h s)) \<le> 0.5 \<and>
         minTemp (snd (regulation clk t dt e a h s)) = minTemp s \<and>
         maxTemp (snd (regulation clk t dt e a h s)) = maxTemp s \<and>
         mode (snd (regulation clk t dt e a h s)) = mode s"
proof -
  define s1 where "s1 = (if learningPhase s \<and> \<not> learningComplete s then learn clk s else s)"
  define s2 where "s2 = snd (calculatePID e dt a s1)"
  define raw where
    "raw = rateLimit (rawOutput a h (adjustment (fst (calculatePID e dt a s1))) s2) s2"
  define out where "out = roundToPrecision s2 (clamp raw (minTemp s2) (maxTemp s2))"
  define s3 where "s3 = s2\<lparr>lastError := e, lastTemp := Some t, lastOutput := Some out\<rparr>"
  define s4 where "s4 = (if \<not> learningPhase s3 then trackPerformance e s3 else s3)"
  have r: "snd (regulation clk t dt e a h s) = s4"
    unfolding regulation_snd s4_def s3_def out_def raw_def s2_def s1_def Let_def ..
  have k1: "0.001 \<le> Ki s1 \<and> Ki s1 \<le> 0.5"
    using assms(2) learn_Ki [of s clk] by (simp add: s1_def)
  have m1: "minTemp s1 = minTemp s" "maxTemp s1 = maxTemp s" "mode s1 = mode s"
    by (simp_all add: s1_def learn_frame)
  have l1: "0 \<le> integralLimit s1"
    using assms(1) m1 k1 by (intro integralLimit_nonneg) simp_all
  have i2: "0 \<le> integral s2 \<and> integral s2 \<le> integralLimit s1"
    using clamp_bounds [OF l1] by (simp add: s2_def calculatePID_snd)
  have f3: "integral s3 = integral s2" "Ki s3 = Ki s1" "minTemp s3 = minTemp s"
    "maxTemp s3 = maxTemp s" "mode s3 = mode s"
    using m1 by (simp_all add: s3_def s2_def calculatePID_snd)
  have k3: "0.001 \<le> Ki s3" "Ki s3 \<le> 0.5" using k1 f3 by simp_all
  have f4: "integral s4 = integral s2" "Ki s4 = Ki s1" "minTemp s4 = minTemp s"
    "maxTemp s4 = maxTemp s" "mode s4 = mode s"
    using f3 trackPerformance_Ki [OF k3] by (simp_all add: s4_def trackPerformance_frame)
  have "integralLimit s4 = integralLimit s1"
    using f4 m1 by (intro integralLimit_cong) simp_all
  then show ?thesis using r i2 f4 k1 by simp
qed

lemma idle_integral:
  "integral (snd (idle e a s)) = max 0 (integral s - \<bar>e\<bar>)"
  "Ki (snd (idle e a s)) = Ki s" "minTemp (snd (idle e a s)) = minTemp s"
  "maxTemp (snd (idle e a s)) = maxTemp s" "mode (snd (idle e a s)) = mode s"
  by (simp_all add: idle_def Let_def)

lemma regulate_targetTemp:
  "res_targetTemp (fst (regulate clk t dt s)) = targetTemp s"
proof -
  have "res_targetTemp (fst (regulation clk t dt e a h s)) = targetTemp (snd (regulation clk t dt e a h s))" for e a h
    by (simp add: regulation_def Let_def case_prod_beta createOutput_def)
  moreover have "targetTemp (snd (regulation clk t dt e a h s)) = targetTemp s" for e a h
    by (simp add: regulation_snd Let_def trackPerformance_frame learn_frame calculatePID_snd)
  ultimately show ?thesis
    by (simp add: regulate_def Let_def idle_def createOutput_def)
qed

text \<open>One update keeps the accumulator within its bounds.\<close>

lemma regulate_integral:
  assumes "minTemp s \<le> maxTemp s" and "0.001 \<le> Ki s \<and> Ki s \<le> 0.5"
    and "0 \<le> integral s" and "integral s \<le> integralLimit s"
  shows "0 \<le> integral (snd (regulate clk t dt s)) \<and>
         integral (snd (regulate clk t dt s)) \<le> integralLimit (snd (regulate clk t dt s)) \<and>
         0.001 \<le> Ki (snd (regulate clk t dt s)) \<and> Ki (snd (regulate clk t dt s)) \<le> 0.5 \<and>
         minTemp (snd (regulate clk t dt s)) = minTemp s \<and>
         maxTemp (snd (regulate clk t dt s)) = maxTemp s \<and>
         mode (snd (regulate clk t dt s)) = mode s \<and>
         (mode s = ''heat'' \<and> targetTemp s < t
            \<longrightarrow> integral (snd (regulate clk t dt s)) \<le> integral s)"
proof (cases "(mode s = ''heat'' \<and> targetTemp s - t < 0) \<or> (mode s = ''cool'' \<and> targetTemp s - t > 0)")
  case True
  then obtain a where reg: "regulate clk t dt s = idle (targetTemp s - t) a s"
    by (auto simp: regulate_def Let_def)
  have "integralLimit (snd (idle (targetTemp s - t) a s)) = integralLimit s"
    by (intro integralLimit_cong) (simp_all add: idle_integral)
  then show ?thesis
    using assms by (simp add: reg idle_integral)
next
  case False
  then obtain e a h where reg: "regulate clk t dt s = regulation clk t dt e a h s"
    by (auto simp: regulate_def Let_def)
  have "\<not> (mode s = ''heat'' \<and> targetTemp s < t)" using False by auto
  then show ?thesis
    using regulation_integral [OF assms(1,2), of clk t dt e a h] by (auto simp: reg)
qed

lemma calculateEffectiveTarget_frame:
  assumes "calculateEffectiveTarget clk s = Some s'"
  shows "\<exists>e. s' = s\<lparr>targetTemp := clamp e (minTemp s) (maxTemp s)\<rparr>"
  using assms by (auto simp: calculateEffectiveTarget_def Let_def)

lemma checkBoostExpiry_frame:
  "minTemp (checkBoostExpiry clk s) = minTemp s" "maxTemp (checkBoostExpiry clk s) = maxTemp s"
  "Ki (checkBoostExpiry clk s) = Ki s" "integral (checkBoostExpiry clk s) = integral s"
  "mode (checkBoostExpiry clk s) = mode s"
  "operatingMode (checkBoostExpiry clk s) = operatingMode s"
  "precision (checkBoostExpiry clk s) = precision s"
  "maxOutputChange (checkBoostExpiry clk s) = maxOutputChange s"
  "lastOutput (checkBoostExpiry clk s) = lastOutput s"
  by (simp_all add: checkBoostExpiry_def)

text \<open>
  The controller the head of \<open>update\<close> hands on: the instant, the boost fields and the
  target may have changed, and the target is a clamped value.
\<close>

lemma update_head_frame:
  assumes "calculateEffectiveTarget clk
             (checkBoostExpiry clk (s\<lparr>lastUpdateTime := Some (now clk)\<rparr>)) = Some s3"
  shows "minTemp s3 = minTemp s" "maxTemp s3 = maxTemp s" "Ki s3 = Ki s"
    "integral s3 = integral s" "mode s3 = mode s" "operatingMode s3 = operatingMode s"
    "precision s3 = precision s" "maxOutputChange s3 = maxOutputChange s"
    "lastOutput s3 = lastOutput s"
    "\<exists>e. targetTemp s3 = clamp e (minTemp s) (maxTemp s)"
proof -
  let ?s2 = "checkBoostExpiry clk (s\<lparr>lastUpdateTime := Some (now clk)\<rparr>)"
  obtain e where s3: "s3 = ?s2\<lparr>targetTemp := clamp e (minTemp ?s2) (maxTemp ?s2)\<rparr>"
    using calculateEffectiveTarget_frame [OF assms] by blast
  show "minTemp s3 = minTemp s" "maxTemp s3 = maxTemp s" "Ki s3 = Ki s"
    "integral s3 = integral s" "mode s3 = mode s" "operatingMode s3 = operatingMode s"
    "precision s3 = precision s" "maxOutputChange s3 = maxOutputChange s"
    "lastOutput s3 = lastOutput s"
    by (simp_all add: s3 checkBoostExpiry_frame)
  have "targetTemp s3 = clamp e (minTemp s) (maxTemp s)"
    by (simp add: s3 checkBoostExpiry_frame)
  then show "\<exists>e. targetTemp s3 = clamp e (minTemp s) (maxTemp s)" by blast
qed

lemma recordTemperature_frame:
  "minTemp (recordTemperature t n s) = minTemp s" "maxTemp (recordTemperature t n s) = maxTemp s"
  "Ki (recordTemperature t n s) = Ki s" "integral (recordTemperature t n s) = integral s"
  "mode (recordTemperature t n s) = mode s" "targetTemp (recordTemperature t n s) = targetTemp s"
  "precision (recordTemperature t n s) = precision s"
  "maxOutputChange (recordTemperature t n s) = maxOutputChange s"
  "lastOutput (recordTemperature t n s) = lastOutput s"
  by (simp_all add: recordTemperature_def Let_def)

lemma update_integral:
  assumes "minTemp s \<le> maxTemp s" and "0.001 \<le> Ki s \<and> Ki s \<le> 0.5"
    and "0 \<le> integral s" and "integral s \<le> integralLimit s"
    and "update clk t s = Some (r, s')"
  shows "0 \<le> integral s' \<and> integral s' \<le> integralLimit s' \<and>
         0.001 \<le> Ki s' \<and> Ki s' \<le> 0.5 \<and> minTemp s' = minTemp s \<and> maxTemp s' = maxTemp s \<and>
         mode s' = mode s \<and>
         (mode s = ''heat'' \<and> res_targetTemp r < t \<longrightarrow> integral s' \<le> integral s)"
proof -
  obtain s3 where h: "calculateEffectiveTarget clk
              (checkBoostExpiry clk (s\<lparr>lastUpdateTime := Some (now clk)\<rparr>)) = Some s3"
    and b: "(if operatingMode s3 = ''off''
            then (createOutput (roundToPrecision s3 (minTemp s3)) 0 ''off'' None (mode s3) s3, s3)
            else regulate clk t (elapsed clk s) (recordTemperature t (now clk) s3)) = (r, s')"
    using assms(5) unfolding update_Some_iff by blast
  note f = update_head_frame [OF h]
  have lim3: "integralLimit s3 = integralLimit s"
    using f by (intro integralLimit_cong) simp_all
  show ?thesis
  proof (cases "operatingMode s3 = ''off''")
    case True
    then have "s' = s3" using b by simp
    then show ?thesis using assms(1-4) f lim3 by simp
  next
    case False
    let ?x = "recordTemperature t (now clk) s3"
    have reg: "regulate clk t (elapsed clk s) ?x = (r, s')" using b False by simp
    have limx: "integralLimit ?x = integralLimit s"
      using f by (intro integralLimit_cong) (simp_all add: recordTemperature_frame)
    have x: "minTemp ?x \<le> maxTemp ?x" "0.001 \<le> Ki ?x \<and> Ki ?x \<le> 0.5"
      "0 \<le> integral ?x" "integral ?x \<le> integralLimit ?x"
      using assms(1-4) f limx by (simp_all add: recordTemperature_frame)
    have "res_targetTemp r = targetTemp ?x"
      using regulate_targetTemp [of clk t "elapsed clk s" ?x] reg by simp
    then show ?thesis
      using regulate_integral [OF x, of clk t "elapsed clk s"] reg f
      by (simp add: recordTemperature_frame)
  qed
qed

lemma run_integral:
  assumes "minTemp s \<le> maxTemp s" and "0.001 \<le> Ki s \<and> Ki s \<le> 0.5"
    and "0 \<le> integral s" and "integral s \<le> integralLimit s"
    and "run samples s = Some trace"
  shows "(\<forall>x\<in>set trace. 0 \<le> integral (snd x) \<and> integral (snd x) \<le> integralLimit (snd x) \<and>
            0 < Ki (snd x)) \<and>
         (mode s = ''heat'' \<and> list_all2 (\<lambda>sample x. res_targetTemp (fst x) < snd sample) samples trace
            \<longrightarrow> sorted_wrt (\<ge>) (integral s # map (integral \<circ> snd) trace))"
  using assms
proof (induction samples arbitrary: s trace)
  case Nil
  then show ?case by simp
next
  case (Cons sample rest)
  obtain clk t where sample: "sample = (clk, t)" by (cases sample)
  obtain r s1 tr where u: "update clk t s = Some (r, s1)" and rr: "run rest s1 = Some tr"
    and tr: "trace = (r, s1) # tr"
    using Cons.prems(5) by (auto simp: sample split: option.splits)
  note st = update_integral [OF Cons.prems(1-4) u]
  have ih: "(\<forall>x\<in>set tr. 0 \<le> integral (snd x) \<and> integral (snd x) \<le> integralLimit (snd x) \<and>
            0 < Ki (snd x)) \<and>
         (mode s1 = ''heat'' \<and> list_all2 (\<lambda>sample x. res_targetTemp (fst x) < snd sample) rest tr
            \<longrightarrow> sorted_wrt (\<ge>) (integral s1 # map (integral \<circ> snd) tr))"
    using st Cons.prems(1) by (intro Cons.IH [OF _ _ _ _ rr]) simp_all
  have inv: "\<forall>x\<in>set trace. 0 \<le> integral (snd x) \<and> integral (snd x) \<le> integralLimit (snd x) \<and>
            0 < Ki (snd x)"
    using st ih by (simp add: tr)
  have mono: "sorted_wrt (\<ge>) (integral s # map (integral \<circ> snd) trace)"
    if "mode s = ''heat''"
      and "list_all2 (\<lambda>sample x. res_targetTemp (fst x) < snd sample) (sample # rest) trace"
  proof -
    have 1: "integral s1 \<le> integral s" using st that by (simp add: sample tr)
    have 2: "sorted_wrt (\<ge>) (integral s1 # map (integral \<circ> snd) tr)"
      using ih st that by (simp add: tr)
    then have "\<forall>y\<in>set (map (integral \<circ> snd) tr). y \<le> integral s" using 1 by auto
    then show ?thesis using 1 2 by (simp add: tr)
  qed
  show ?case using inv mono by blast
qed


text \<open>
  C2. Let the bounds be ordered, \<open>Ki\<close> lie in the range \<open>[0.001, 0.5]\<close> to which
  tuning and adaptation clamp it, and the accumulator start within
  \<open>[0, (maxTemp - minTemp) / (2 Ki)]\<close> (as it does in a new controller and after every
  setter). Then after every update of a run the accumulator is not negative and at most
  \<open>(maxTemp - minTemp) / (2 Ki)\<close>, for the gains in force after that update; the same
  holds after a PID computation on its own; and in \<open>heat\<close> mode, when every reading of
  the run exceeds the effective target of its cycle, the accumulator never increases from
  one cycle to the next.
\<close>

theorem C2_integral_accumulator:
  assumes "minTemp s \<le> maxTemp s" and "0.001 \<le> Ki s" and "Ki s \<le> 0.5"
    and "0 \<le> integral s" and "integral s \<le> (maxTemp s - minTemp s) / (2 * Ki s)"
    and "run samples s = Some trace"
  shows "(\<forall>x\<in>set trace. 0 \<le> integral (snd x) \<and>
            integral (snd x) \<le> (maxTemp (snd x) - minTemp (snd x)) / (2 * Ki (snd x))) \<and>
         0 \<le> integral (snd (calculatePID e dt a s)) \<and>
         integral (snd (calculatePID e dt a s)) \<le> (maxTemp s - minTemp s) / (2 * Ki s) \<and>
         (mode s = ''heat'' \<and>
          list_all2 (\<lambda>sample x. res_targetTemp (fst x) < snd sample) samples trace
            \<longrightarrow> sorted_wrt (\<ge>) (integral s # map (integral \<circ> snd) trace))"
proof -
  have lim: "integralLimit x = (maxTemp x - minTemp x) / (2 * Ki x)" if "0 < Ki x" for x
    using that by (simp add: integralLimit_def)
  have k: "0.001 \<le> Ki s \<and> Ki s \<le> 0.5" "0 < Ki s" using assms(2,3) by simp_all
  have i: "integral s \<le> integralLimit s" using assms(5) lim [OF k(2)] by simp
  note run = run_integral [OF assms(1) k(1) assms(4) i assms(6)]
  have 1: "\<forall>x\<in>set trace. 0 \<le> integral (snd x) \<and>
            integral (snd x) \<le> (maxTemp (snd x) - minTemp (snd x)) / (2 * Ki (snd x))"
    using run lim by auto
  have "0 \<le> integralLimit s"
    using assms(1) k(2) by (intro integralLimit_nonneg) simp_all
  then have 2: "0 \<le> integral (snd (calculatePID e dt a s)) \<and>
         integral (snd (calculatePID e dt a s)) \<le> (maxTemp s - minTemp s) / (2 * Ki s)"
    using clamp_bounds [of 0 "integralLimit s"] lim [OF k(2)] by (simp add: calculatePID_snd)
  show ?thesis using 1 2 run by blast
qed

theorem C2_integral_accumulator_witness:
  "map_option snd (update minute1 16 constructor) = Some heatedController \<and>
   minTemp heatedController \<le> maxTemp heatedController \<and>
   0.001 \<le> Ki heatedController \<and> Ki heatedController \<le> 0.5 \<and>
   0 \<le> integral heatedController \<and>
   integral heatedController
     \<le> (maxTemp heatedController - minTemp heatedController) / (2 * Ki heatedController) \<and>
   mode heatedController = ''heat'' \<and>
   (\<exists>trace. run warmReadings heatedController = Some trace \<and>
      list_all2 (\<lambda>sample x. res_targetTemp (fst x) < snd sample) warmReadings trace \<and>
      integral heatedController # map (integral \<circ> snd) trace = [250, 249, 247] \<and>
      sorted_wrt (\<ge>) (integral heatedController # map (integral \<circ> snd) trace) \<and>
      (\<forall>x\<in>set trace. 0 \<le> integral (snd x) \<and>
            integral (snd x) \<le> (maxTemp (snd x) - minTemp (snd x)) / (2 * Ki (snd x))))"
proof -
  have 0: "map_option snd (update minute1 16 constructor) = Some heatedController"
    by code_simp
  have h: "minTemp heatedController \<le> maxTemp heatedController"
    "0.001 \<le> Ki heatedController" "Ki heatedController \<le> 0.5"
    "0 \<le> integral heatedController"
    "integral heatedController
     \<le> (maxTemp heatedController - minTemp heatedController) / (2 * Ki heatedController)"
    by (simp_all add: heatedController_def constructor_def)
  have m: "mode heatedController = ''heat''"
    by (simp add: heatedController_def constructor_def)
  have c: "case run warmReadings heatedController of
             None \<Rightarrow> False
           | Some trace \<Rightarrow>
               list_all2 (\<lambda>sample x. res_targetTemp (fst x) < snd sample) warmReadings trace \<and>
               integral heatedController # map (integral \<circ> snd) trace = [250, 249, 247]"
    by code_simp
  then obtain trace where r: "run warmReadings heatedController = Some trace"
    and l: "list_all2 (\<lambda>sample x. res_targetTemp (fst x) < snd sample) warmReadings trace"
    and v: "integral heatedController # map (integral \<circ> snd) trace = [250, 249, 247]"
    by (auto split: option.splits)
  note T = C2_integral_accumulator [OF h r, of 0 0 "''heat''"]
  have s: "sorted_wrt (\<ge>) (integral heatedController # map (integral \<circ> snd) trace)"
    using T m l by blast
  have b: "\<forall>x\<in>set trace. 0 \<le> integral (snd x) \<and>
            integral (snd x) \<le> (maxTemp (snd x) - minTemp (snd x)) / (2 * Ki (snd x))"
    using T by blast
  show ?thesis
    by (intro conjI exI [of _ trace]) (fact 0 h m r l v s b)+
qed

section \<open>Rate limit of the setpoint\<close>

lemma rateLimit_near:
  assumes "lastOutput s = Some l" and "0 \<le> maxOutputChange s"
  shows "\<bar>rateLimit raw s - l\<bar> \<le> maxOutputChange s"
  using assms by (simp add: rateLimit_def Let_def Math_sign_def)

lemma rateLimit_cong:
  "lastOutput s' = lastOutput s \<Longrightarrow> maxOutputChange s' = maxOutputChange s
     \<Longrightarrow> rateLimit raw s' = rateLimit raw s"
  by (simp add: rateLimit_def split: option.splits)

text \<open>
  The arithmetic of the rate limit: the last setpoint \<open>l\<close> is a rounded value of the
  range, the new one \<open>out\<close> rounds the clamped, rate-limited raw value.
\<close>

lemma setpoint_step_bound:
  assumes "lo \<le> x" and "x \<le> hi" and "\<bar>l - x\<bar> \<le> p / 2"
    and "\<bar>raw - l\<bar> \<le> mc" and "\<bar>out - clamp raw lo hi\<bar> \<le> p / 2"
  shows "\<bar>out - l\<bar> \<le> mc + p"
proof -
  have "\<bar>clamp raw lo hi - l\<bar> \<le> mc + p / 2"
    using assms(1-4) unfolding clamp_def by (auto simp: min_def max_def abs_if split: if_splits)
  then show ?thesis using assms(5) by linarith
qed

text \<open>The setpoint of the PID part, and where it is stored.\<close>

lemma regulation_output:
  "\<exists>raw. res_output (fst (regulation clk t dt e a h s))
            = roundToPrecision s (clamp (rateLimit raw s) (minTemp s) (maxTemp s)) \<and>
         lastOutput (snd (regulation clk t dt e a h s))
            = Some (res_output (fst (regulation clk t dt e a h s)))"
proof -
  define s1 where "s1 = (if learningPhase s \<and> \<not> learningComplete s then learn clk s else s)"
  define s2 where "s2 = snd (calculatePID e dt a s1)"
  define raw where "raw = rawOutput a h (adjustment (fst (calculatePID e dt a s1))) s2"
  define out where "out = roundToPrecision s2 (clamp (rateLimit raw s2) (minTemp s2) (maxTemp s2))"
  define s3 where "s3 = s2\<lparr>lastError := e, lastTemp := Some t, lastOutput := Some out\<rparr>"
  define s4 where "s4 = (if \<not> learningPhase s3 then trackPerformance e s3 else s3)"
  have r: "snd (regulation clk t dt e a h s) = s4"
    unfolding regulation_snd s4_def s3_def out_def raw_def s2_def s1_def Let_def ..
  have f2: "precision s2 = precision s" "minTemp s2 = minTemp s" "maxTemp s2 = maxTemp s"
    "lastOutput s2 = lastOutput s" "maxOutputChange s2 = maxOutputChange s"
    by (simp_all add: s2_def s1_def calculatePID_snd learn_frame)
  have f4: "precision s4 = precision s" "lastOutput s4 = Some out"
    using f2 by (simp_all add: s4_def s3_def trackPerformance_frame)
  have o: "out = roundToPrecision s (clamp (rateLimit raw s) (minTemp s) (maxTemp s))"
    using f2 rateLimit_cong [of s2 s raw] roundToPrecision_cong [of s2 s]
    by (simp add: out_def)
  have "res_output (fst (regulation clk t dt e a h s)) = roundToPrecision s4 out"
    unfolding regulation_def Let_def case_prod_beta
    by (simp add: createOutput_def s4_def s3_def out_def raw_def s2_def s1_def)
  also have "\<dots> = roundToPrecision s out"
    using f4 by (intro roundToPrecision_cong) simp
  also have "\<dots> = out"
    unfolding o by (rule roundToPrecision_idem)
  finally have "res_output (fst (regulation clk t dt e a h s)) = out" .
  then show ?thesis using o r f4 by auto
qed

lemma idle_output:
  "res_output (fst (idle e a s)) = roundToPrecision s (targetTemp s)"
  "lastOutput (snd (idle e a s)) = Some (roundToPrecision s (targetTemp s))"
proof -
  have "res_output (fst (idle e a s))
          = roundToPrecision (snd (idle e a s)) (roundToPrecision s (targetTemp s))"
    by (simp add: idle_def Let_def createOutput_def)
  also have "\<dots> = roundToPrecision s (roundToPrecision s (targetTemp s))"
    by (intro roundToPrecision_cong) (simp add: idle_def Let_def)
  finally show "res_output (fst (idle e a s)) = roundToPrecision s (targetTemp s)"
    by (simp add: roundToPrecision_idem)
  show "lastOutput (snd (idle e a s)) = Some (roundToPrecision s (targetTemp s))"
    by (simp add: idle_def Let_def)
qed

lemma regulate_cases:
  "(\<exists>e a. regulate clk t dt s = idle e a s) \<or>
   (\<exists>e a h. regulate clk t dt s = regulation clk t dt e a h s)"
proof (cases "(mode s = ''heat'' \<and> targetTemp s - t < 0) \<or>
              (mode s = ''cool'' \<and> targetTemp s - t > 0)")
  case True
  then have "\<exists>a. regulate clk t dt s = idle (targetTemp s - t) a s"
    by (auto simp: regulate_def Let_def)
  then show ?thesis by blast
next
  case False
  then have "\<exists>a h. regulate clk t dt s = regulation clk t dt (targetTemp s - t) a h s"
    by (auto simp: regulate_def Let_def)
  then show ?thesis by blast
qed

lemma idle_no_pidTerms: "res_pidTerms (fst (idle e a s)) = None"
  by (simp add: idle_def Let_def createOutput_def)

lemma learn_settings:
  "operatingMode (learn clk s) = operatingMode s" "hysteresis (learn clk s) = hysteresis s"
  by (simp_all add: learn_def adaptPIDParameters_def Let_def)

lemma continuousAdaptation_settings:
  "operatingMode (continuousAdaptation s) = operatingMode s"
  "maxOutputChange (continuousAdaptation s) = maxOutputChange s"
  by (simp_all add: continuousAdaptation_def Let_def)

lemma trackPerformance_settings:
  "operatingMode (trackPerformance e s) = operatingMode s"
  "maxOutputChange (trackPerformance e s) = maxOutputChange s"
  by (simp_all add: trackPerformance_def Let_def continuousAdaptation_settings)

lemma regulation_frame:
  "minTemp (snd (regulation clk t dt e a h s)) = minTemp s"
  "maxTemp (snd (regulation clk t dt e a h s)) = maxTemp s"
  "precision (snd (regulation clk t dt e a h s)) = precision s"
  "maxOutputChange (snd (regulation clk t dt e a h s)) = maxOutputChange s"
  "operatingMode (snd (regulation clk t dt e a h s)) = operatingMode s"
  unfolding regulation_snd Let_def
  by (simp_all add: trackPerformance_frame trackPerformance_settings learn_frame learn_settings
        calculatePID_snd)

lemma idle_frame:
  "minTemp (snd (idle e a s)) = minTemp s" "maxTemp (snd (idle e a s)) = maxTemp s"
  "precision (snd (idle e a s)) = precision s"
  "maxOutputChange (snd (idle e a s)) = maxOutputChange s"
  "operatingMode (snd (idle e a s)) = operatingMode s"
  by (simp_all add: idle_def Let_def)

lemma recordTemperature_settings:
  "operatingMode (recordTemperature t n s) = operatingMode s"
  by (simp add: recordTemperature_def Let_def)

text \<open>
  An update outside operating mode off stores the setpoint it returns, and that setpoint is
  a value between the bounds, rounded.
\<close>

lemma update_stores_output:
  assumes "minTemp s \<le> maxTemp s" and "operatingMode s \<noteq> ''off''"
    and "update clk t s = Some (r, s')"
  shows "lastOutput s' = Some (res_output r) \<and>
         (\<exists>x. minTemp s \<le> x \<and> x \<le> maxTemp s \<and> res_output r = roundToPrecision s x) \<and>
         minTemp s' = minTemp s \<and> maxTemp s' = maxTemp s \<and> precision s' = precision s \<and>
         maxOutputChange s' = maxOutputChange s \<and> operatingMode s' = operatingMode s"
proof -
  obtain s3 where h: "calculateEffectiveTarget clk
              (checkBoostExpiry clk (s\<lparr>lastUpdateTime := Some (now clk)\<rparr>)) = Some s3"
    and b: "(if operatingMode s3 = ''off''
            then (createOutput (roundToPrecision s3 (minTemp s3)) 0 ''off'' None (mode s3) s3, s3)
            else regulate clk t (elapsed clk s) (recordTemperature t (now clk) s3)) = (r, s')"
    using assms(3) unfolding update_Some_iff by blast
  note f = update_head_frame [OF h]
  let ?x = "recordTemperature t (now clk) s3"
  have fx: "minTemp ?x = minTemp s" "maxTemp ?x = maxTemp s" "precision ?x = precision s"
    "maxOutputChange ?x = maxOutputChange s" "operatingMode ?x = operatingMode s"
    using f by (simp_all add: recordTemperature_frame recordTemperature_settings)
  have rx: "roundToPrecision ?x = roundToPrecision s"
    using fx roundToPrecision_cong [of ?x s] by auto
  have reg: "regulate clk t (elapsed clk s) ?x = (r, s')"
    using b f assms(2) by simp
  from f obtain e0 where tg: "targetTemp ?x = clamp e0 (minTemp s) (maxTemp s)"
    by (auto simp: recordTemperature_frame)
  consider (idle) e a where "regulate clk t (elapsed clk s) ?x = idle e a ?x"
    | (pid) e a h where "regulate clk t (elapsed clk s) ?x
                           = regulation clk t (elapsed clk s) e a h ?x"
    using regulate_cases [of clk t "elapsed clk s" ?x] by blast
  then show ?thesis
  proof cases
    case idle
    then have eq: "idle e a ?x = (r, s')" using reg by simp
    have rs: "r = fst (idle e a ?x)" "s' = snd (idle e a ?x)" by (simp_all add: eq)
    have "minTemp s \<le> targetTemp ?x \<and> targetTemp ?x \<le> maxTemp s"
      using clamp_bounds [OF assms(1)] tg by simp
    then show ?thesis
      using fx rx by (auto simp: rs idle_output idle_frame)
  next
    case pid
    then have eq: "regulation clk t (elapsed clk s) e a h ?x = (r, s')" using reg by simp
    have rs: "r = fst (regulation clk t (elapsed clk s) e a h ?x)"
      "s' = snd (regulation clk t (elapsed clk s) e a h ?x)" by (simp_all add: eq)
    obtain raw where o: "res_output r
            = roundToPrecision ?x (clamp (rateLimit raw ?x) (minTemp ?x) (maxTemp ?x))"
      and l: "lastOutput s' = Some (res_output r)"
      using regulation_output [of clk t "elapsed clk s" e a h ?x] rs by auto
    have "minTemp s \<le> clamp (rateLimit raw ?x) (minTemp s) (maxTemp s) \<and>
          clamp (rateLimit raw ?x) (minTemp s) (maxTemp s) \<le> maxTemp s"
      using clamp_bounds [OF assms(1)] by simp
    then have "\<exists>x. minTemp s \<le> x \<and> x \<le> maxTemp s \<and> res_output r = roundToPrecision s x"
      using o fx rx by auto
    then show ?thesis
      using l fx by (simp add: rs(2) regulation_frame)
  qed
qed

text \<open>An update that ran the PID step returns a rate-limited, clamped and rounded setpoint.\<close>

lemma update_pid_output:
  assumes "update clk t s = Some (r, s')" and "res_pidTerms r \<noteq> None"
  shows "\<exists>raw. res_output r = roundToPrecision s (clamp (rateLimit raw s) (minTemp s) (maxTemp s))"
proof -
  obtain s3 where h: "calculateEffectiveTarget clk
              (checkBoostExpiry clk (s\<lparr>lastUpdateTime := Some (now clk)\<rparr>)) = Some s3"
    and b: "(if operatingMode s3 = ''off''
            then (createOutput (roundToPrecision s3 (minTemp s3)) 0 ''off'' None (mode s3) s3, s3)
            else regulate clk t (elapsed clk s) (recordTemperature t (now clk) s3)) = (r, s')"
    using assms(1) unfolding update_Some_iff by blast
  note f = update_head_frame [OF h]
  let ?x = "recordTemperature t (now clk) s3"
  have fx: "minTemp ?x = minTemp s" "maxTemp ?x = maxTemp s" "precision ?x = precision s"
    "maxOutputChange ?x = maxOutputChange s" "lastOutput ?x = lastOutput s"
    using f by (simp_all add: recordTemperature_frame)
  have rx: "roundToPrecision ?x = roundToPrecision s"
    using fx roundToPrecision_cong [of ?x s] by auto
  have lx: "rateLimit raw ?x = rateLimit raw s" for raw
    using fx by (intro rateLimit_cong) simp_all
  have off: "operatingMode s3 \<noteq> ''off''"
  proof
    assume "operatingMode s3 = ''off''"
    then have "r = createOutput (roundToPrecision s3 (minTemp s3)) 0 ''off'' None (mode s3) s3"
      using b by auto
    then show False using assms(2) by (simp add: createOutput_def)
  qed
  then have reg: "regulate clk t (elapsed clk s) ?x = (r, s')" using b by simp
  consider (idle) e a where "regulate clk t (elapsed clk s) ?x = idle e a ?x"
    | (pid) e a h where "regulate clk t (elapsed clk s) ?x
                           = regulation clk t (elapsed clk s) e a h ?x"
    using regulate_cases [of clk t "elapsed clk s" ?x] by blast
  then show ?thesis
  proof cases
    case idle
    then have "idle e a ?x = (r, s')" using reg by simp
    then have "r = fst (idle e a ?x)" by simp
    then show ?thesis using assms(2) by (simp add: idle_no_pidTerms)
  next
    case pid
    then have "regulation clk t (elapsed clk s) e a h ?x = (r, s')" using reg by simp
    then have "r = fst (regulation clk t (elapsed clk s) e a h ?x)" by simp
    then show ?thesis
      using regulation_output [of clk t "elapsed clk s" e a h ?x] fx rx lx by auto
  qed
qed

text \<open>
  C3, as claimed, fails: the idle branch returns the rounded target without rate limiting.
  A new controller in heat mode answers a reading of 16 with the setpoint 25 and the next
  reading of 22 (above the target of 21) with the setpoint 21, a step of 4 where
  \<open>maxOutputChange\<close> plus one precision step is 1.
\<close>

theorem C3_idle_branch_not_rate_limited:
  "(case update minute1 16 constructor of
      None \<Rightarrow> False
    | Some (r0, s0) \<Rightarrow>
        (case update minute2 22 s0 of
           None \<Rightarrow> False
         | Some (r1, s1) \<Rightarrow>
             res_output r0 = 25 \<and> res_output r1 = 21 \<and> res_trend r1 = ''idle'' \<and>
             \<bar>res_output r1 - res_output r0\<bar> > maxOutputChange s0 + precision s0))"
  by code_simp

text \<open>
  C3, amended. For two consecutive updates on one controller, the first outside operating
  mode off and the second running the PID step (no off branch, no idle branch), the second
  setpoint differs from the first by at most \<open>maxOutputChange\<close> plus one precision step,
  given ordered bounds, a positive precision and a non-negative \<open>maxOutputChange\<close>.
\<close>

theorem C3_rate_limit:
  assumes "minTemp s \<le> maxTemp s" and "0 < precision s" and "0 \<le> maxOutputChange s"
    and "operatingMode s \<noteq> ''off''"
    and "update clk0 t0 s = Some (r0, sa)"
    and "update clk1 t1 sa = Some (r1, sb)"
    and "res_pidTerms r1 \<noteq> None"
  shows "\<bar>res_output r1 - res_output r0\<bar> \<le> maxOutputChange s + precision s"
proof -
  note first = update_stores_output [OF assms(1,4,5)]
  then obtain x where x: "minTemp s \<le> x" "x \<le> maxTemp s"
    and r0: "res_output r0 = roundToPrecision s x" by blast
  have lo: "lastOutput sa = Some (res_output r0)" using first by simp
  have fa: "minTemp sa = minTemp s" "maxTemp sa = maxTemp s" "precision sa = precision s"
    "maxOutputChange sa = maxOutputChange s" using first by simp_all
  obtain raw where r1: "res_output r1
        = roundToPrecision sa (clamp (rateLimit raw sa) (minTemp sa) (maxTemp sa))"
    using update_pid_output [OF assms(6,7)] by blast
  have 1: "\<bar>res_output r0 - x\<bar> \<le> precision s / 2"
    unfolding r0 using assms(2) by (rule roundToPrecision_near)
  have 2: "\<bar>rateLimit raw sa - res_output r0\<bar> \<le> maxOutputChange s"
    using rateLimit_near [OF lo, of raw] assms(3) fa by simp
  have "0 < precision sa" using assms(2) fa by simp
  then have 3: "\<bar>res_output r1 - clamp (rateLimit raw sa) (minTemp s) (maxTemp s)\<bar>
                  \<le> precision s / 2"
    using roundToPrecision_near [of sa "clamp (rateLimit raw sa) (minTemp sa) (maxTemp sa)"] fa r1
    by simp
  show ?thesis
    by (rule setpoint_step_bound [OF x 1 2 3])
qed

theorem C3_rate_limit_witness:
  "minTemp constructor \<le> maxTemp constructor \<and> 0 < precision constructor \<and>
   0 \<le> maxOutputChange constructor \<and> operatingMode constructor \<noteq> ''off'' \<and>
   (\<exists>r0 sa r1 sb. update minute1 20 constructor = Some (r0, sa) \<and>
      update minute2 20 sa = Some (r1, sb) \<and> res_pidTerms r1 \<noteq> None \<and>
      res_output r0 = 23 \<and> res_output r1 = 23.5 \<and>
      \<bar>res_output r1 - res_output r0\<bar> \<le> maxOutputChange constructor + precision constructor)"
proof -
  have h: "minTemp constructor \<le> maxTemp constructor" "0 < precision constructor"
    "0 \<le> maxOutputChange constructor" "operatingMode constructor \<noteq> ''off''"
    by (simp_all add: constructor_def)
  have c: "case update minute1 20 constructor of
             None \<Rightarrow> False
           | Some (r0, sa) \<Rightarrow>
               res_output r0 = 23 \<and>
               (case update minute2 20 sa of
                  None \<Rightarrow> False
                | Some (r1, sb) \<Rightarrow> res_pidTerms r1 \<noteq> None \<and> res_output r1 = 23.5)"
    by code_simp
  then obtain r0 sa r1 sb where u0: "update minute1 20 constructor = Some (r0, sa)"
    and u1: "update minute2 20 sa = Some (r1, sb)" and p: "res_pidTerms r1 \<noteq> None"
    and v: "res_output r0 = 23" "res_output r1 = 23.5"
    by (auto split: option.splits)
  note T = C3_rate_limit [OF h u0 u1 p]
  show ?thesis
    by (intro conjI exI [of _ r0] exI [of _ sa] exI [of _ r1] exI [of _ sb])
       (fact h u0 u1 p v T)+
qed

end
